theory Spec2Isabelle
  imports Main "HOL-Library.AList"
begin

section \<open>Python values\<close>

text \<open>
  The driver \<^verbatim>\<open>run_upstream.py\<close> handles loosely typed data: the argparse
  namespace, the YAML configuration and the checkpoint record. One datatype of Python
  values covers them. A dictionary and a namespace are association lists from field
  names to values, in insertion order. A float is kept as mantissa and binary exponent,
  or as one of the special values; only its truth value is ever used. \<open>PObject\<close> is
  a handle to an object of a module outside this file (a dataloader, a runner, a model).
\<close>

datatype pyfloat = Finite int int | Infinite bool | NaN

datatype pyval =
    PNone
  | PBool bool
  | PInt int
  | PFloat pyfloat
  | PStr string
  | PList "pyval list"
  | PDict "(string \<times> pyval) list"
  | PNamespace "(string \<times> pyval) list"
  | PObject nat

type_synonym namespace = "(string \<times> pyval) list"

text \<open>
  The exceptions the driver and the standard library raise on its paths. \<open>RuntimeError\<close>
  carries the two arguments the driver gives it; \<open>ExternalError\<close> is any exception that
  comes out of a module outside this file.
\<close>

datatype error =
    AssertionError
  | ValueError
  | TypeError
  | KeyError string
  | AttributeError string
  | FileNotFoundError string
  | IsADirectoryError string
  | NotADirectoryError string
  | FileExistsError string
  | SameFileError string
  | RuntimeError string pyval
  | NotImplementedError
  | ExternalError string

subsection \<open>Truth values, subscripts, attributes\<close>

text \<open>\<^verbatim>\<open>bool(v)\<close>: the empty and zero values are false, a handle is true.\<close>

fun truthy :: "pyval \<Rightarrow> bool" where
  "truthy PNone = False"
| "truthy (PBool b) = b"
| "truthy (PInt i) = (i \<noteq> 0)"
| "truthy (PFloat (Finite m e)) = (m \<noteq> 0)"
| "truthy (PFloat (Infinite s)) = True"
| "truthy (PFloat NaN) = True"
| "truthy (PStr s) = (s \<noteq> [])"
| "truthy (PList xs) = (xs \<noteq> [])"
| "truthy (PDict kvs) = (kvs \<noteq> [])"
| "truthy (PNamespace kvs) = True"
| "truthy (PObject h) = True"

text \<open>
  \<^verbatim>\<open>v[k]\<close> with a string key \<open>k\<close>: a dictionary looks the key up and raises
  KeyError when it is missing; every other value of this model raises TypeError (a string
  or a list wants an integer index, the rest is not subscriptable).
\<close>

fun getitem :: "pyval \<Rightarrow> string \<Rightarrow> error + pyval" where
  "getitem (PDict kvs) k = (case map_of kvs k of None \<Rightarrow> Inl (KeyError k) | Some v \<Rightarrow> Inr v)"
| "getitem v k = Inl TypeError"

text \<open>\<^verbatim>\<open>v[k] = x\<close> with a string key: only a dictionary accepts it.\<close>

fun setitem :: "pyval \<Rightarrow> string \<Rightarrow> pyval \<Rightarrow> error + pyval" where
  "setitem (PDict kvs) k x = Inr (PDict (AList.update k x kvs))"
| "setitem v k x = Inl TypeError"

text \<open>
  \<^verbatim>\<open>k in v\<close> for a string \<open>k\<close>: key membership in a dictionary, element membership
  in a list, substring test in a string, TypeError otherwise.
\<close>

fun is_substring :: "string \<Rightarrow> string \<Rightarrow> bool" where
  "is_substring k [] = (k = [])"
| "is_substring k (c # cs) = (take (length k) (c # cs) = k \<or> is_substring k cs)"

fun contains :: "string \<Rightarrow> pyval \<Rightarrow> error + bool" where
  "contains k (PDict kvs) = Inr (k \<in> fst ` set kvs)"
| "contains k (PList xs) = Inr (PStr k \<in> set xs)"
| "contains k (PStr s) = Inr (is_substring k s)"
| "contains k v = Inl TypeError"

text \<open>\<^verbatim>\<open>args.k\<close> on a namespace, and \<^verbatim>\<open>setattr(args, k, v)\<close>.\<close>

definition getattr :: "namespace \<Rightarrow> string \<Rightarrow> error + pyval" where
  "getattr ns k = (case map_of ns k of None \<Rightarrow> Inl (AttributeError k) | Some v \<Rightarrow> Inr v)"

definition setattr :: "namespace \<Rightarrow> string \<Rightarrow> pyval \<Rightarrow> namespace" where
  "setattr ns k v = AList.update k v ns"

text \<open>\<^verbatim>\<open>vars(v)\<close>: the attribute dictionary of a namespace; the other values have none.\<close>

fun vars :: "pyval \<Rightarrow> error + namespace" where
  "vars (PNamespace kvs) = Inr kvs"
| "vars v = Inl TypeError"

text \<open>
  \<^verbatim>\<open>d.update(e)\<close>: every item of \<open>e\<close>, in order, replaces the value of its key in
  \<open>d\<close> or is appended.
\<close>

definition dict_update :: "(string \<times> pyval) list \<Rightarrow> (string \<times> pyval) list \<Rightarrow> (string \<times> pyval) list" where
  "dict_update d e = fold (\<lambda>(k, v). AList.update k v) e d"

section \<open>Strings\<close>

text \<open>
  Strings are lists of characters, read as ASCII text. \<^verbatim>\<open>s.split(c)\<close> with a
  one-character separator always returns at least one piece.
\<close>

fun split_on :: "char \<Rightarrow> string \<Rightarrow> string list" where
  "split_on c [] = [[]]"
| "split_on c (x # xs) =
     (if x = c then [] # split_on c xs
      else (case split_on c xs of [] \<Rightarrow> [[x]] | y # ys \<Rightarrow> (x # y) # ys))"

definition is_digit :: "char \<Rightarrow> bool" where
  "is_digit c = (48 \<le> (of_char c :: nat) \<and> (of_char c :: nat) \<le> 57)"

definition digit_val :: "char \<Rightarrow> int" where
  "digit_val c = int (of_char c) - 48"

text \<open>The ASCII characters that \<^verbatim>\<open>int\<close> skips around a number.\<close>

definition is_space :: "char \<Rightarrow> bool" where
  "is_space c = ((of_char c :: nat) \<in> {9, 10, 11, 12, 13, 32})"

definition strip :: "string \<Rightarrow> string" where
  "strip s = rev (dropWhile is_space (rev (dropWhile is_space s)))"

text \<open>
  \<^verbatim>\<open>int(s)\<close> in base ten: surrounding whitespace is dropped, one sign is
  allowed, then digits follow, where single underscores may stand between two digits.
  Anything else raises ValueError. \<open>parse_digits\<close> reads what follows the first digit.
\<close>

fun parse_digits :: "string \<Rightarrow> int \<Rightarrow> int option" where
  "parse_digits [] acc = Some acc"
| "parse_digits [c] acc = (if is_digit c then Some (10 * acc + digit_val c) else None)"
| "parse_digits (c # d # ds) acc =
     (if is_digit c then parse_digits (d # ds) (10 * acc + digit_val c)
      else if c = CHR ''_'' \<and> is_digit d then parse_digits ds (10 * acc + digit_val d)
      else None)"

definition parse_unsigned :: "string \<Rightarrow> int option" where
  "parse_unsigned s =
     (case s of [] \<Rightarrow> None
      | c # cs \<Rightarrow> if is_digit c then parse_digits cs (digit_val c) else None)"

definition py_int :: "string \<Rightarrow> error + int" where
  "py_int s =
     (let t = strip s;
          neg = (t \<noteq> [] \<and> hd t = CHR ''-'');
          u = (if t \<noteq> [] \<and> (hd t = CHR ''-'' \<or> hd t = CHR ''+'') then tl t else t)
      in case parse_unsigned u of
           None \<Rightarrow> Inl ValueError
         | Some n \<Rightarrow> Inr (if neg then - n else n))"

text \<open>\<^verbatim>\<open>str(n)\<close> for an integer.\<close>

fun str_nat :: "nat \<Rightarrow> string" where
  "str_nat n =
     (if n < 10 then [char_of (48 + n)]
      else str_nat (n div 10) @ [char_of (48 + n mod 10)])"

definition str_int :: "int \<Rightarrow> string" where
  "str_int i = (if i < 0 then CHR ''-'' # str_nat (nat (- i)) else str_nat (nat i))"

text \<open>
  \<^verbatim>\<open>os.path.join(a, b)\<close>: an absolute \<open>b\<close> replaces \<open>a\<close>; otherwise the two are
  joined with one slash unless \<open>a\<close> is empty or ends in one.
\<close>

definition path_join :: "string \<Rightarrow> string \<Rightarrow> string" where
  "path_join a b =
     (if b \<noteq> [] \<and> hd b = CHR ''/'' then b
      else if a = [] \<or> last a = CHR ''/'' then a @ b
      else a @ ''/'' @ b)"

declare str_nat.simps [simp del]

section \<open>The world outside the driver\<close>

text \<open>
  The file system maps a path to a directory or to a file with its text. It is a list, so
  that the entries of a directory come in an order: the order in which the operating
  system lists them. Paths are compared as they are written: no symbolic links, no
  \<^verbatim>\<open>.\<close> or \<^verbatim>\<open>..\<close>, and no permissions.
\<close>

datatype node = Dir | File string

type_synonym filesystem = "(string \<times> node) list"

text \<open>Every call into a module outside this file, with its arguments.\<close>

datatype call =
    YamlLoad string
  | TorchLoad string
  | ParsePruneHeads pyval
  | RandomSeed pyval
  | NpRandomSeed pyval
  | TorchManualSeed pyval
  | CudaIsAvailable
  | CudaManualSeedAll pyval
  | GetDataloader "(string \<times> pyval) list"
  | GetOnlineDataloader namespace pyval bool
  | RunnerNew namespace pyval pyval pyval
  | RunnerSetModel pyval
  | RunnerTrain pyval
  | TransformerNew "(string \<times> pyval) list" pyval
  | ApcRunnerNew pyval bool
  | ApcRunnerTrain pyval

text \<open>
  What a run leaves behind, in order: the calls it made, the directories it created, the
  files it copied (source and destination), the backend flags it set and the lines it
  printed (a line is kept as the list of its pieces).
\<close>

datatype event =
    Call call
  | MakeDirs string
  | CopyFile string string
  | SetFlag string bool
  | Print "pyval list"

record world =
  fs :: filesystem
  fds :: "int list"
  rng :: nat
  trace :: "event list"

text \<open>
  The modules the driver imports are not part of this file: \<open>ext\<close> says what a call
  into them returns or raises (a message) and how it changes the world, \<open>import_error\<close>
  what importing a module raises, and \<open>rng_step\<close> how the random generator moves on.
\<close>

record env =
  ext :: "call \<Rightarrow> world \<Rightarrow> (string + pyval) \<times> world"
  import_error :: "string \<Rightarrow> string option"
  rng_step :: "nat \<Rightarrow> nat"

subsection \<open>Actions: a result or an exception, and the world after\<close>

type_synonym 'a io = "world \<Rightarrow> (error + 'a) \<times> world"

definition ret :: "'a \<Rightarrow> 'a io" where
  "ret x = (\<lambda>w. (Inr x, w))"

definition raise :: "error \<Rightarrow> 'a io" where
  "raise e = (\<lambda>w. (Inl e, w))"

definition lift :: "error + 'a \<Rightarrow> 'a io" where
  "lift r = (\<lambda>w. (r, w))"

definition bind :: "'a io \<Rightarrow> ('a \<Rightarrow> 'b io) \<Rightarrow> 'b io" where
  "bind m f = (\<lambda>w. case m w of (Inl e, w') \<Rightarrow> (Inl e, w') | (Inr x, w') \<Rightarrow> f x w')"

definition emit :: "event \<Rightarrow> unit io" where
  "emit ev = (\<lambda>w. (Inr (), w\<lparr>trace := trace w @ [ev]\<rparr>))"

text \<open>
  A call into an outside module is recorded whatever it does; the outside module cannot
  rewrite the record of the run.
\<close>

definition extcall :: "env \<Rightarrow> call \<Rightarrow> pyval io" where
  "extcall en c =
     (\<lambda>w. case ext en c w of
        (r, w') \<Rightarrow>
          ((case r of Inl m \<Rightarrow> Inl (ExternalError m) | Inr v \<Rightarrow> Inr v),
           w'\<lparr>trace := trace w @ [Call c]\<rparr>))"

definition import_module :: "env \<Rightarrow> string \<Rightarrow> unit io" where
  "import_module en m =
     (case import_error en m of None \<Rightarrow> ret () | Some msg \<Rightarrow> raise (ExternalError msg))"

text \<open>The events a run added to the record.\<close>

definition new_events :: "world \<Rightarrow> world \<Rightarrow> event list" where
  "new_events w w' = drop (length (trace w)) (trace w')"

subsection \<open>The standard library on this world\<close>

text \<open>
  \<^verbatim>\<open>os.path.exists(v)\<close>: a string is looked up as a path, an integer is an open
  file descriptor or not, anything else raises TypeError.
\<close>

definition os_path_exists :: "pyval \<Rightarrow> bool io" where
  "os_path_exists v =
     (\<lambda>w. case v of
        PStr p \<Rightarrow> (Inr (map_of (fs w) p \<noteq> None), w)
      | PInt i \<Rightarrow> (Inr (i \<in> set (fds w)), w)
      | PBool b \<Rightarrow> (Inr ((if b then 1 else 0) \<in> set (fds w)), w)
      | _ \<Rightarrow> (Inl TypeError, w))"

definition os_path_isdir :: "filesystem \<Rightarrow> string \<Rightarrow> bool" where
  "os_path_isdir f p = (map_of f p = Some Dir)"

text \<open>
  \<^verbatim>\<open>os.path.split\<close>: the text before the last slash, without its trailing slashes
  unless it is nothing else, and the text after it.
\<close>

definition dirname :: "string \<Rightarrow> string" where
  "dirname p =
     (let h = rev (dropWhile (\<lambda>c. c \<noteq> CHR ''/'') (rev p));
          t = rev (dropWhile (\<lambda>c. c = CHR ''/'') (rev h))
      in if t = [] then h else t)"

definition basename :: "string \<Rightarrow> string" where
  "basename p = rev (takeWhile (\<lambda>c. c \<noteq> CHR ''/'') (rev p))"

text \<open>
  The names in a directory, in the order of the file system; on request only those of its
  subdirectories. The empty path is the working directory; a path that is not a directory
  has no names.
\<close>

definition listdir :: "filesystem \<Rightarrow> bool \<Rightarrow> string \<Rightarrow> string list" where
  "listdir f dironly d =
     (if d \<noteq> [] \<and> \<not> os_path_isdir f d then []
      else
        (let pre = path_join d [] in
         [n \<leftarrow> map (\<lambda>p. drop (length pre) p)
                 [p \<leftarrow> map fst f. take (length pre) p = pre
                                  \<and> (if dironly then os_path_isdir f p else True)].
            n \<noteq> [] \<and> CHR ''/'' \<notin> set n]))"

text \<open>
  Shell-style matching of a name against a pattern, as \<^verbatim>\<open>fnmatch\<close> does it:
  \<^verbatim>\<open>*\<close> stands for any text, \<^verbatim>\<open>?\<close> for one character, and a bracket
  expression for one character of a set, or one outside it when it starts with
  \<^verbatim>\<open>!\<close>. The set lists characters and ranges; a closing bracket right at its
  start belongs to it. An opening bracket that is never closed stands for itself.
\<close>

fun class_matches :: "string \<Rightarrow> char \<Rightarrow> bool" where
  "class_matches [] c = False"
| "class_matches [x] c = (c = x)"
| "class_matches [x, y] c = (c = x \<or> c = y)"
| "class_matches (lo # d # hi # rest) c =
     (if d = CHR ''-''
      then ((of_char lo :: nat) \<le> of_char c \<and> (of_char c :: nat) \<le> of_char hi)
           \<or> class_matches rest c
      else c = lo \<or> class_matches (d # hi # rest) c)"

definition bracket :: "string \<Rightarrow> (bool \<times> string \<times> string) option" where
  "bracket ps =
     (let neg = (ps \<noteq> [] \<and> hd ps = CHR ''!'');
          qs = (if neg then tl ps else ps);
          first = (if qs \<noteq> [] \<and> hd qs = CHR '']'' then [CHR '']''] else []);
          rs = (if qs \<noteq> [] \<and> hd qs = CHR '']'' then tl qs else qs);
          after = dropWhile (\<lambda>c. c \<noteq> CHR '']'') rs
      in if after = [] then None
         else Some (neg, first @ takeWhile (\<lambda>c. c \<noteq> CHR '']'') rs, tl after))"

fun fnmatch :: "string \<Rightarrow> string \<Rightarrow> bool" where
  "fnmatch [] [] = True"
| "fnmatch (c # cs) [] = False"
| "fnmatch [] (p # ps) = (p = CHR ''*'' \<and> fnmatch [] ps)"
| "fnmatch (c # cs) (p # ps) =
     (if p = CHR ''*'' then fnmatch (c # cs) ps \<or> fnmatch cs (p # ps)
      else if p = CHR ''?'' then fnmatch cs ps
      else if p = CHR ''['' then
        (case bracket ps of
           None \<Rightarrow> c = CHR ''['' \<and> fnmatch cs ps
         | Some (neg, items, rest) \<Rightarrow> (class_matches items c \<noteq> neg) \<and> fnmatch cs rest)
      else p = c \<and> fnmatch cs ps)"

text \<open>
  \<^verbatim>\<open>glob.glob(pathname)\<close>, as the standard library computes it. A pattern is any
  path with one of the characters \<^verbatim>\<open>*\<close>, \<^verbatim>\<open>?\<close> and \<^verbatim>\<open>[\<close>.
  The last component is matched against the names of each directory that the part before
  it stands for, and that part is itself expanded when it is a pattern: the wildcards of a
  directory name are not taken literally. Hidden names are left out unless the pattern
  asks for them.
\<close>

definition has_magic :: "string \<Rightarrow> bool" where
  "has_magic s = list_ex (\<lambda>c. c = CHR ''*'' \<or> c = CHR ''?'' \<or> c = CHR ''['') s"

definition is_hidden :: "string \<Rightarrow> bool" where
  "is_hidden n = (n \<noteq> [] \<and> hd n = CHR ''.'')"

definition lexists :: "filesystem \<Rightarrow> string \<Rightarrow> bool" where
  "lexists f p = (map_of f p \<noteq> None)"

definition glob1 :: "filesystem \<Rightarrow> bool \<Rightarrow> string \<Rightarrow> string \<Rightarrow> string list" where
  "glob1 f dironly d pat =
     [n \<leftarrow> listdir f dironly d.
        (if is_hidden pat then True else \<not> is_hidden n) \<and> fnmatch n pat]"

definition glob0 :: "filesystem \<Rightarrow> string \<Rightarrow> string \<Rightarrow> string list" where
  "glob0 f d b =
     (if b \<noteq> [] then (if lexists f (path_join d b) then [b] else [])
      else (if os_path_isdir f d then [b] else []))"

function iglob :: "filesystem \<Rightarrow> bool \<Rightarrow> string \<Rightarrow> string list" where
  "iglob f dironly pathname =
     (let d = dirname pathname; b = basename pathname in
      if \<not> has_magic pathname then
        (if b \<noteq> [] then (if lexists f pathname then [pathname] else [])
         else (if os_path_isdir f d then [pathname] else []))
      else if d = [] then glob1 f dironly [] b
      else
        (let dirs = (if d \<noteq> pathname \<and> has_magic d then iglob f True d else [d]) in
         concat (map (\<lambda>dir. map (path_join dir)
                               (if has_magic b then glob1 f dironly dir b
                                else glob0 f dir b)) dirs)))"
  by pat_completeness auto
termination
proof (relation "measure (\<lambda>(f, dironly, pathname). length pathname)")
  show "wf (measure (\<lambda>(f, dironly, pathname). length pathname))"
    by simp
next
  fix f :: filesystem and dironly :: bool and pathname x xa :: string
  assume x: "x = dirname pathname" and ne: "x \<noteq> pathname \<and> has_magic x"
  have pre: "\<exists>n. rev (dropWhile P (rev xs)) = take n xs" for P and xs :: string
  proof -
    have "rev (dropWhile P (rev xs))
            = rev (drop (length (takeWhile P (rev xs))) (rev xs))"
      by (simp add: dropWhile_eq_drop)
    also have "\<dots> = take (length xs - length (takeWhile P (rev xs))) xs"
      by (simp add: rev_drop)
    finally show ?thesis by blast
  qed
  obtain n where h: "rev (dropWhile (\<lambda>c. c \<noteq> CHR ''/'') (rev pathname)) = take n pathname"
    using pre by blast
  obtain m where t: "rev (dropWhile (\<lambda>c. c = CHR ''/'') (rev (take n pathname)))
                       = take m (take n pathname)"
    using pre by blast
  have "x = take n pathname \<or> x = take m (take n pathname)"
    using x h t by (auto simp: dirname_def Let_def)
  then obtain k where k: "x = take k pathname"
    by (auto simp: take_take)
  with ne have "k < length pathname"
    by (metis linorder_not_less take_all)
  with k have "length x < length pathname" by simp
  then show "((f, True, x), (f, dironly, pathname))
               \<in> measure (\<lambda>(f, dironly, pathname). length pathname)"
    by simp
qed

declare iglob.simps [simp del]

definition glob :: "filesystem \<Rightarrow> string \<Rightarrow> string list" where
  "glob f pathname = iglob f False pathname"

text \<open>
  \<^verbatim>\<open>os.makedirs(p)\<close>: the missing directories above \<open>p\<close> are created, then \<open>p\<close>
  itself, which must not be there yet; a file in the way raises.
\<close>

definition ancestors :: "string \<Rightarrow> string list" where
  "ancestors p =
     [take i p. i \<leftarrow> [1 ..< length p], p ! i = CHR ''/'' \<and> p ! (i - 1) \<noteq> CHR ''/'']"

fun mkdir_all :: "filesystem \<Rightarrow> string list \<Rightarrow> error option \<times> filesystem" where
  "mkdir_all f [] = (None, f)"
| "mkdir_all f (d # ds) =
     (case map_of f d of
        None \<Rightarrow> mkdir_all (f @ [(d, Dir)]) ds
      | Some Dir \<Rightarrow> mkdir_all f ds
      | Some (File t) \<Rightarrow> (Some (NotADirectoryError d), f))"

definition makedirs :: "string \<Rightarrow> unit io" where
  "makedirs p =
     (\<lambda>w. case mkdir_all (fs w) (ancestors p) of
        (Some e, f) \<Rightarrow> (Inl e, w\<lparr>fs := f\<rparr>)
      | (None, f) \<Rightarrow>
          (if map_of f p \<noteq> None then (Inl (FileExistsError p), w\<lparr>fs := f\<rparr>)
           else (Inr (), w\<lparr>fs := f @ [(p, Dir)], trace := trace w @ [MakeDirs p]\<rparr>)))"

text \<open>\<^verbatim>\<open>open(p, 'r').read()\<close>.\<close>

definition read_file :: "string \<Rightarrow> string io" where
  "read_file p =
     (\<lambda>w. case map_of (fs w) p of
        None \<Rightarrow> (Inl (FileNotFoundError p), w)
      | Some Dir \<Rightarrow> (Inl (IsADirectoryError p), w)
      | Some (File t) \<Rightarrow> (Inr t, w))"

text \<open>
  \<^verbatim>\<open>shutil.copyfile(src, dst)\<close>: refuses to copy a file onto itself, reads the
  source, and writes the destination, whose directory must exist.
\<close>

definition copyfile :: "string \<Rightarrow> string \<Rightarrow> unit io" where
  "copyfile src dst =
     (\<lambda>w. if src = dst \<and> map_of (fs w) src \<noteq> None then (Inl (SameFileError src), w)
        else case map_of (fs w) src of
          None \<Rightarrow> (Inl (FileNotFoundError src), w)
        | Some Dir \<Rightarrow> (Inl (IsADirectoryError src), w)
        | Some (File t) \<Rightarrow>
            (if map_of (fs w) dst = Some Dir then (Inl (IsADirectoryError dst), w)
             else if CHR ''/'' \<in> set dst \<and> dirname dst \<noteq> ''/''
                     \<and> map_of (fs w) (dirname dst) = None
               then (Inl (FileNotFoundError dst), w)
             else if CHR ''/'' \<in> set dst \<and> dirname dst \<noteq> ''/''
                     \<and> map_of (fs w) (dirname dst) \<noteq> Some Dir
               then (Inl (NotADirectoryError dst), w)
             else (Inr (), w\<lparr>fs := AList.update dst (File t) (fs w),
                             trace := trace w @ [CopyFile src dst]\<rparr>)))"

text \<open>
  \<^verbatim>\<open>random.randint(a, b)\<close>: the generator's next raw value, brought into the range
  from \<open>a\<close> to \<open>b\<close>, both included.
\<close>

definition randint :: "env \<Rightarrow> int \<Rightarrow> int \<Rightarrow> int io" where
  "randint en a b =
     (\<lambda>w. if b < a then (Inl ValueError, w)
        else (Inr (a + int (rng w) mod (b - a + 1)), w\<lparr>rng := rng_step en (rng w)\<rparr>))"

section \<open>The driver\<close>

subsection \<open>The command line\<close>

text \<open>
  What \<^verbatim>\<open>parser.parse_args()\<close> returns: one field per declared option, with the
  declared type and default. \<^verbatim>\<open>--run\<close> accepts the two choices only, and like
  every option without a default it is \<^verbatim>\<open>None\<close> when it is not given.
\<close>

datatype run_choice = Transformer | Apc

record cli =
  cli_resume :: "string option"
  cli_run :: "run_choice option"
  cli_config :: "string option"
  cli_name :: "string option"
  cli_ckpdir :: string
  cli_seed :: int
  cli_test :: string
  cli_cpu :: bool
  cli_multi_gpu :: bool
  cli_test_reconstruct :: bool
  cli_online_config :: "string option"

definition opt_str :: "string option \<Rightarrow> pyval" where
  "opt_str v = (case v of None \<Rightarrow> PNone | Some s \<Rightarrow> PStr s)"

definition run_name :: "run_choice \<Rightarrow> string" where
  "run_name r = (case r of Transformer \<Rightarrow> ''transformer'' | Apc \<Rightarrow> ''apc'')"

definition parse_args :: "cli \<Rightarrow> namespace" where
  "parse_args c =
     [(''resume'', opt_str (cli_resume c)),
      (''run'', opt_str (map_option run_name (cli_run c))),
      (''config'', opt_str (cli_config c)),
      (''name'', opt_str (cli_name c)),
      (''ckpdir'', PStr (cli_ckpdir c)),
      (''seed'', PInt (cli_seed c)),
      (''test'', PStr (cli_test c)),
      (''cpu'', PBool (cli_cpu c)),
      (''multi_gpu'', PBool (cli_multi_gpu c)),
      (''test_reconstruct'', PBool (cli_test_reconstruct c)),
      (''online_config'', opt_str (cli_online_config c))]"

subsection \<open>\<^verbatim>\<open>get_upstream_args\<close>\<close>

text \<open>
  The sort key of line 74: the text after the last hyphen of the path, up to its first
  dot, read as an integer.
\<close>

definition ckpt_step :: "string \<Rightarrow> error + int" where
  "ckpt_step pth = py_int (hd (split_on CHR ''.'' (last (split_on CHR ''-'' pth))))"

text \<open>
  \<^verbatim>\<open>sorted(xs, key=...)\<close>: the key of every element is computed first, and the
  first key that raises ends the call; the sort is stable.
\<close>

fun collect :: "(error + 'a) list \<Rightarrow> error + 'a list" where
  "collect [] = Inr []"
| "collect (Inl e # rs) = Inl e"
| "collect (Inr x # rs) = (case collect rs of Inl e \<Rightarrow> Inl e | Inr xs \<Rightarrow> Inr (x # xs))"

definition py_sorted :: "('a \<Rightarrow> error + int) \<Rightarrow> 'a list \<Rightarrow> error + 'a list" where
  "py_sorted key xs =
     (case collect (map key xs) of
        Inl e \<Rightarrow> Inl e
      | Inr ks \<Rightarrow> Inr (map snd (sort_key fst (zip ks xs))))"

text \<open>Lines 71 to 77: the checkpoint file a resume path stands for.\<close>

definition select_resume_ckpt :: "filesystem \<Rightarrow> string \<Rightarrow> error + string" where
  "select_resume_ckpt f resume =
     (if os_path_isdir f resume then
        (let ckpts = glob f (resume @ ''/*.ckpt'') in
         if \<not> length ckpts > 0 then Inl AssertionError
         else case py_sorted ckpt_step ckpts of
                Inl e \<Rightarrow> Inl e
              | Inr sorted_ckpts \<Rightarrow> Inr (last sorted_ckpts))
      else Inr resume)"

text \<open>
  Lines 79 to 83, the nested \<^verbatim>\<open>update_args\<close>. A dictionary has one item for a key:
  should the list of the new namespace repeat a key, its first item counts, as in every
  lookup.
\<close>

definition update_args :: "namespace \<Rightarrow> pyval \<Rightarrow> error + namespace" where
  "update_args old new =
     (case vars new of
        Inl e \<Rightarrow> Inl e
      | Inr new_dict \<Rightarrow> Inr (dict_update old (AList.clearjunk new_dict)))"

text \<open>
  \<^verbatim>\<open>yaml.load(open(path, 'r'), Loader=yaml.FullLoader)\<close>: \<^verbatim>\<open>open\<close> refuses
  \<^verbatim>\<open>None\<close>, the parser is outside this file.
\<close>

definition yaml_load_file :: "env \<Rightarrow> string option \<Rightarrow> pyval io" where
  "yaml_load_file en path =
     (case path of
        None \<Rightarrow> raise TypeError
      | Some p \<Rightarrow> bind (read_file p) (\<lambda>content. extcall en (YamlLoad content)))"

text \<open>
  \<^verbatim>\<open>parse_prune_heads(config)\<close> changes the configuration in place; the call into it
  returns the configuration as changed.
\<close>

definition get_upstream_args :: "env \<Rightarrow> cli \<Rightarrow> (namespace \<times> pyval) io" where
  "get_upstream_args en c =
     (let args = parse_args c in
      case cli_resume c of
        None \<Rightarrow>
          (let args = setattr args ''gpu'' (PBool (\<not> cli_cpu c)) in
           bind (yaml_load_file en (cli_config c)) (\<lambda>config.
           bind (extcall en (ParsePruneHeads config)) (\<lambda>config.
           case cli_online_config c of
             None \<Rightarrow> ret (args, config)
           | Some oc \<Rightarrow>
               bind (yaml_load_file en (Some oc)) (\<lambda>online_config.
               bind (lift (setitem config ''online'' online_config)) (\<lambda>config.
               ret (args, config))))))
      | Some resume \<Rightarrow>
          bind (\<lambda>w. (select_resume_ckpt (fs w) resume, w)) (\<lambda>resume_ckpt.
          bind (extcall en (TorchLoad resume_ckpt)) (\<lambda>ckpt.
          bind (lift (getitem ckpt ''Settings'')) (\<lambda>settings.
          bind (lift (getitem settings ''Paras'')) (\<lambda>paras.
          bind (lift (update_args args paras)) (\<lambda>args.
          bind (lift (getitem settings ''Config'')) (\<lambda>config.
          ret (setattr args ''resume'' (PStr resume_ckpt), config))))))))"

subsection \<open>\<^verbatim>\<open>get_dataloader\<close>\<close>

text \<open>An operand of \<^verbatim>\<open>+\<close> on strings, or of a path function, must be a string.\<close>

fun str_operand :: "pyval \<Rightarrow> error + string" where
  "str_operand (PStr s) = Inr s"
| "str_operand v = Inl TypeError"

text \<open>\<^verbatim>\<open>f(..., **d)\<close>: \<open>d\<close> must be a mapping, and none of its keys may repeat a keyword.\<close>

fun keyword_args :: "(string \<times> pyval) list \<Rightarrow> pyval \<Rightarrow> error + (string \<times> pyval) list" where
  "keyword_args kws (PDict kvs) =
     (if \<exists>k \<in> set (map fst kvs). k \<in> set (map fst kws) then Inl TypeError
      else Inr (kws @ kvs))"
| "keyword_args kws v = Inl TypeError"

definition get_dataloader :: "env \<Rightarrow> namespace \<Rightarrow> pyval \<Rightarrow> pyval io" where
  "get_dataloader en args config =
     bind (lift (getitem config ''dataloader'')) (\<lambda>dl.
     bind (lift (getitem dl ''data_path'')) (\<lambda>data_path.
     bind (os_path_exists data_path) (\<lambda>there.
     if \<not> there then raise (RuntimeError ''[run_upstream] - Data path not valid:'' data_path)
     else
       bind (lift (getitem dl ''train_set'')) (\<lambda>train_set.
       bind (lift (str_operand data_path)) (\<lambda>p.
       bind (emit (Print [PStr ''[run_upstream] - Loading input data: '', train_set,
                          PStr '' from '', PStr p])) (\<lambda>_.
       bind (emit (Print [PStr ''[run_upstream] - getting train dataloader...''])) (\<lambda>_.
       bind (lift (getitem config ''runner'')) (\<lambda>runner.
       bind (lift (getitem runner ''duo_feature'')) (\<lambda>duo_feature.
       let load = (if truthy duo_feature then ''duo'' else ''acoustic'') in
       bind (if load = ''duo'' then
               bind (lift (getitem dl ''target_path'')) (\<lambda>target_path.
               bind (lift (str_operand target_path)) (\<lambda>t.
               emit (Print [PStr ''[run_upstream] - Loading duo data: '', train_set,
                            PStr '' from '', PStr t])))
             else ret ()) (\<lambda>_.
       bind (lift (getattr args ''gpu'')) (\<lambda>gpu.
       bind (lift (getitem config ''transformer'')) (\<lambda>mam_config.
       bind (lift (keyword_args [(''split'', PStr ''train''), (''load'', PStr load),
                             (''use_gpu'', gpu), (''run_mam'', PBool True),
                             (''mam_config'', mam_config)] dl)) (\<lambda>kwargs.
       extcall en (GetDataloader kwargs))))))))))))))"

subsection \<open>\<^verbatim>\<open>run_transformer\<close>\<close>

text \<open>
  Line 126 and line 128: \<^verbatim>\<open>copyfile(path, os.path.join(ckpdir, path.split('/')[-1]))\<close>.
  Only a string has \<^verbatim>\<open>split\<close>.
\<close>

definition copy_into :: "pyval \<Rightarrow> pyval \<Rightarrow> unit io" where
  "copy_into path ckpdir =
     (case path of
        PStr src \<Rightarrow>
          bind (lift (str_operand ckpdir)) (\<lambda>d.
          copyfile src (path_join d (last (split_on CHR ''/'' src))))
      | _ \<Rightarrow> raise (AttributeError ''split''))"

text \<open>
  Lines 116 to 128, the part under the comment \<^verbatim>\<open>mkdir\<close>: the checkpoint directory is
  resolved and made, and the configuration files are copied into it. It returns the
  arguments, whose name it may have set, and the directory.
\<close>

definition prepare_ckpdir :: "env \<Rightarrow> namespace \<Rightarrow> (namespace \<times> pyval) io" where
  "prepare_ckpdir en args =
     bind (import_module en ''transformer.runner'') (\<lambda>_.
     bind (lift (getattr args ''ckpdir'')) (\<lambda>given.
     bind (if given = PStr [] then
             bind (lift (getattr args ''name'')) (\<lambda>name.
             bind (if name = PNone then
                     bind (randint en 0 999) (\<lambda>n.
                     ret (setattr args ''name'' (PStr (''run_'' @ str_int n))))
                   else ret args) (\<lambda>args.
             bind (lift (getattr args ''name'')) (\<lambda>name.
             bind (lift (str_operand name)) (\<lambda>s.
             ret (args, PStr (path_join ''result/result_transformer/'' s))))))
           else ret (args, given)) (\<lambda>(args, ckpdir).
     bind (os_path_exists ckpdir) (\<lambda>there.
     bind (if \<not> there then bind (lift (str_operand ckpdir)) makedirs else ret ()) (\<lambda>_.
     bind (lift (getattr args ''config'')) (\<lambda>config_path.
     bind (copy_into config_path ckpdir) (\<lambda>_.
     bind (lift (getattr args ''online_config'')) (\<lambda>online_path.
     bind (if online_path \<noteq> PNone then copy_into online_path ckpdir else ret ()) (\<lambda>_.
     ret (args, ckpdir))))))))))"

definition run_transformer :: "env \<Rightarrow> namespace \<Rightarrow> pyval \<Rightarrow> unit io" where
  "run_transformer en args config =
     bind (prepare_ckpdir en args) (\<lambda>(args, ckpdir).
     bind (lift (contains ''online'' config)) (\<lambda>online.
     bind (if online then extcall en (GetOnlineDataloader args config True)
           else get_dataloader en args config) (\<lambda>dataloader.
     bind (extcall en (RunnerNew args config dataloader ckpdir)) (\<lambda>runner.
     bind (extcall en (RunnerSetModel runner)) (\<lambda>_.
     bind (extcall en (RunnerTrain runner)) (\<lambda>_.
     ret ()))))))"

subsection \<open>\<^verbatim>\<open>test_transformer\<close>, \<^verbatim>\<open>run_apc\<close> and \<^verbatim>\<open>main\<close>\<close>

definition test_transformer :: "env \<Rightarrow> namespace \<Rightarrow> pyval \<Rightarrow> pyval io" where
  "test_transformer en args input_dim =
     bind (import_module en ''transformer.nn_transformer'') (\<lambda>_.
     bind (lift (getattr args ''test'')) (\<lambda>test.
     let options = [(''ckpt_file'', test),
                    (''load_pretrain'', PStr ''True''),
                    (''no_grad'', PStr ''True''),
                    (''dropout'', PStr ''default''),
                    (''spec_aug'', PStr ''False''),
                    (''spec_aug_prev'', PStr ''True''),
                    (''weighted_sum'', PStr ''False''),
                    (''select_layer'', PInt (- 1))] in
     bind (extcall en (TransformerNew options input_dim)) (\<lambda>upstream_model.
     bind (emit (Print [PStr ''[upstream runner] - successfully loaded, valid checkpoint: '',
                        test])) (\<lambda>_.
     ret upstream_model))))"

definition run_apc :: "env \<Rightarrow> pyval \<Rightarrow> unit io" where
  "run_apc en seed =
     bind (import_module en ''rnn.runner'') (\<lambda>_.
     bind (extcall en (ApcRunnerNew seed True)) (\<lambda>runner.
     bind (extcall en (ApcRunnerTrain runner)) (\<lambda>_.
     ret ())))"

definition main :: "env \<Rightarrow> cli \<Rightarrow> unit io" where
  "main en c =
     bind (get_upstream_args en c) (\<lambda>(args, config).
     bind (lift (getattr args ''seed'')) (\<lambda>seed.
     bind (extcall en (RandomSeed seed)) (\<lambda>_.
     bind (extcall en (NpRandomSeed seed)) (\<lambda>_.
     bind (extcall en (TorchManualSeed seed)) (\<lambda>_.
     bind (extcall en CudaIsAvailable) (\<lambda>available.
     bind (if truthy available then bind (extcall en (CudaManualSeedAll seed)) (\<lambda>_. ret ())
           else ret ()) (\<lambda>_.
     bind (emit (SetFlag ''torch.backends.cudnn.deterministic'' True)) (\<lambda>_.
     bind (emit (SetFlag ''torch.backends.cudnn.benchmark'' True)) (\<lambda>_.
     bind (lift (getattr args ''run'')) (\<lambda>run.
     if run = PStr ''transformer'' then
       bind (lift (getattr args ''test'')) (\<lambda>test.
       if test \<noteq> PStr [] then
         bind (lift (getitem config ''transformer'')) (\<lambda>transformer.
         bind (lift (getitem transformer ''input_dim'')) (\<lambda>input_dim.
         bind (test_transformer en args input_dim) (\<lambda>_. ret ())))
       else run_transformer en args config)
     else if run = PStr ''apc'' then
       bind (lift (getattr args ''test'')) (\<lambda>test.
       if test \<noteq> PStr [] then raise NotImplementedError
       else bind (lift (getattr args ''seed'')) (\<lambda>seed. run_apc en seed))
     else ret ()))))))))))"

section \<open>What the specification says of checkpoint names\<close>

text \<open>
  Following the specification's words, not the code: a checkpoint file name ends in a
  numeric step suffix, separated by a hyphen and followed by the file extension.
  \<open>numeric_step_suffix\<close> gives the digits between the last hyphen and \<^verbatim>\<open>.ckpt\<close>,
  \<open>step_value\<close> their value as a decimal number. \<open>str_less\<close> is the order in which
  Python compares two strings.
\<close>

definition decimal :: "string \<Rightarrow> int" where
  "decimal ds = foldl (\<lambda>a c. 10 * a + digit_val c) 0 ds"

definition numeric_step_suffix :: "string \<Rightarrow> string option" where
  "numeric_step_suffix p =
     (let n = length p; stem = take (n - 5) p;
          ds = rev (takeWhile (\<lambda>c. c \<noteq> CHR ''-'') (rev stem))
      in if drop (n - 5) p = ''.ckpt'' \<and> CHR ''-'' \<in> set stem \<and> ds \<noteq> [] \<and> list_all is_digit ds
         then Some ds else None)"

definition step_value :: "string \<Rightarrow> int" where
  "step_value p = (case numeric_step_suffix p of None \<Rightarrow> 0 | Some ds \<Rightarrow> decimal ds)"

fun str_less :: "string \<Rightarrow> string \<Rightarrow> bool" where
  "str_less [] [] = False"
| "str_less [] (y # ys) = True"
| "str_less (x # xs) [] = False"
| "str_less (x # xs) (y # ys) =
     ((of_char x :: nat) < of_char y \<or> (x = y \<and> str_less xs ys))"

section \<open>What a run records\<close>

text \<open>
  Two properties of an action, for following a run through the driver step by step:
  every event the action records satisfies \<open>P\<close>; and whenever the action returns, it
  has recorded an event that satisfies \<open>G\<close>. The third says that an action leaves the
  file system as it is, the fourth that the outside modules do.
\<close>

definition only_emits :: "(event \<Rightarrow> bool) \<Rightarrow> 'a io \<Rightarrow> bool" where
  "only_emits P m \<longleftrightarrow> (\<forall>w. \<exists>evs. trace (snd (m w)) = trace w @ evs \<and> list_all P evs)"

definition returns_after :: "(event \<Rightarrow> bool) \<Rightarrow> 'a io \<Rightarrow> bool" where
  "returns_after G m \<longleftrightarrow>
     (\<forall>w x. fst (m w) = Inr x \<longrightarrow>
        (\<exists>evs. trace (snd (m w)) = trace w @ evs \<and> list_ex G evs))"

definition leaves_files :: "'a io \<Rightarrow> bool" where
  "leaves_files m \<longleftrightarrow> (\<forall>w. fs (snd (m w)) = fs w)"

definition harmless :: "env \<Rightarrow> bool" where
  "harmless en \<longleftrightarrow> (\<forall>c w. fs (snd (ext en c w)) = fs w)"

text \<open>
  How an action can end: \<open>raises_only E\<close> says that every exception it raises
  satisfies \<open>E\<close>, \<open>fails_with E\<close> that it always raises, and an exception that
  satisfies \<open>E\<close>.
\<close>

definition raises_only :: "(error \<Rightarrow> bool) \<Rightarrow> 'a io \<Rightarrow> bool" where
  "raises_only E m \<longleftrightarrow> (\<forall>w. case fst (m w) of Inl e \<Rightarrow> E e | Inr x \<Rightarrow> True)"

definition fails_with :: "(error \<Rightarrow> bool) \<Rightarrow> 'a io \<Rightarrow> bool" where
  "fails_with E m \<longleftrightarrow> (\<forall>w. case fst (m w) of Inl e \<Rightarrow> E e | Inr x \<Rightarrow> False)"

text \<open>
  The events of the first lines of \<^verbatim>\<open>main\<close>: what \<^verbatim>\<open>get_upstream_args\<close>
  calls (the YAML parser, \<^verbatim>\<open>parse_prune_heads\<close>, and \<^verbatim>\<open>torch.load\<close> on the
  checkpoint of a resume path), the seeding calls and the two backend flags. No dataloader,
  Runner or model is built by any of them. \<open>seeding_calls\<close> lists the calls of lines
  179 to 182.
\<close>

fun setup_event :: "event \<Rightarrow> bool" where
  "setup_event (Call (YamlLoad content)) = True"
| "setup_event (Call (ParsePruneHeads config)) = True"
| "setup_event (Call (TorchLoad path)) = True"
| "setup_event (Call (RandomSeed seed)) = True"
| "setup_event (Call (NpRandomSeed seed)) = True"
| "setup_event (Call (TorchManualSeed seed)) = True"
| "setup_event (Call CudaIsAvailable) = True"
| "setup_event (Call (CudaManualSeedAll seed)) = True"
| "setup_event (SetFlag name b) = True"
| "setup_event e = False"

text \<open>
  The events of a test of the transformer: those above, the construction of the model
  from the checkpoint under test, and printed lines. Making a directory, copying a file
  and building a dataloader or a Runner are not among them.
\<close>

fun test_event :: "event \<Rightarrow> bool" where
  "test_event (Call (TransformerNew options input_dim)) = True"
| "test_event (Print line) = True"
| "test_event e = setup_event e"

definition seeding_calls :: "pyval \<Rightarrow> call list" where
  "seeding_calls seed =
     [RandomSeed seed, NpRandomSeed seed, TorchManualSeed seed, CudaIsAvailable,
      CudaManualSeedAll seed]"

section \<open>Example runs\<close>

text \<open>
  A small experiment directory, a configuration, a checkpoint record and outside modules
  that behave well, for running the driver on concrete inputs. The outside modules return
  the example configuration for every YAML file and the example checkpoint for every
  checkpoint file; numpy refuses a seed outside its range.
\<close>

definition example_config :: pyval where
  "example_config =
     PDict [(''dataloader'',
             PDict [(''data_path'', PStr ''data/libri''),
                    (''train_set'', PList [PStr ''train-clean-100'']),
                    (''batch_size'', PInt 6)]),
            (''runner'', PDict [(''duo_feature'', PBool False)]),
            (''transformer'', PDict [(''input_dim'', PInt 160)])]"

definition example_paras :: namespace where
  "example_paras =
     [(''run'', PStr ''transformer''), (''config'', PStr ''config/base.yaml''),
      (''test'', PStr []), (''seed'', PInt 7), (''gpu'', PBool True)]"

definition example_ckpt :: pyval where
  "example_ckpt =
     PDict [(''Settings'',
             PDict [(''Paras'', PNamespace example_paras), (''Config'', example_config)])]"

definition example_env :: env where
  "example_env =
     \<lparr> ext = (\<lambda>c w. case c of
                TorchLoad p \<Rightarrow> (Inr example_ckpt, w)
              | YamlLoad t \<Rightarrow> (Inr example_config, w)
              | ParsePruneHeads cfg \<Rightarrow> (Inr cfg, w)
              | CudaIsAvailable \<Rightarrow> (Inr (PBool False), w)
              | NpRandomSeed v \<Rightarrow>
                  (case v of
                     PInt i \<Rightarrow>
                       if 0 \<le> i \<and> i < 2 ^ 32 then (Inr PNone, w)
                       else (Inl ''Seed must be between 0 and 2**32 - 1'', w)
                   | _ \<Rightarrow> (Inl ''Cannot cast to integer'', w))
              | _ \<Rightarrow> (Inr (PObject 0), w)),
       import_error = (\<lambda>m. None),
       rng_step = (\<lambda>n. n + 1) \<rparr>"

definition example_world :: world where
  "example_world =
     \<lparr> fs = [(''config'', Dir), (''config/base.yaml'', File ''transformer: {}''),
             (''config/online.yaml'', File ''input: {}''),
             (''data'', Dir), (''data/libri'', Dir),
             (''result'', Dir), (''result/empty'', Dir),
             (''result/run'', Dir),
             (''result/run/states-9.ckpt'', File ''nine''),
             (''result/run/states-10.ckpt'', File ''ten''),
             (''result/run/log.txt'', File [])],
       fds = [0, 1, 2], rng = 1234, trace = [] \<rparr>"

text \<open>
  A second directory tree, in which two experiment directories carry a bracket in their
  names and each has a sibling whose name the bracket expression matches.
\<close>

definition example_wildcard_world :: world where
  "example_wildcard_world =
     \<lparr> fs = [(''exp'', Dir),
             (''exp/e[1]'', Dir),
             (''exp/e1'', Dir), (''exp/e1/states-7.ckpt'', File ''seven''),
             (''exp/run[1]'', Dir),
             (''exp/run[1]/states-5.ckpt'', File ''five''),
             (''exp/run[1]/states-12.ckpt'', File ''twelve''),
             (''exp/run1'', Dir), (''exp/run1/states-3.ckpt'', File ''three''),
             (''exp/run1/notes.txt'', File [])],
       fds = [0, 1, 2], rng = 1234, trace = [] \<rparr>"

definition example_cli :: cli where
  "example_cli =
     \<lparr> cli_resume = None, cli_run = Some Transformer, cli_config = Some ''config/base.yaml'',
       cli_name = None, cli_ckpdir = [], cli_seed = 1337, cli_test = [], cli_cpu = False,
       cli_multi_gpu = False, cli_test_reconstruct = False, cli_online_config = None \<rparr>"

definition example_args :: namespace where
  "example_args = setattr (parse_args example_cli) ''gpu'' (PBool True)"

definition example_duo_config :: pyval where
  "example_duo_config =
     PDict [(''dataloader'',
             PDict [(''data_path'', PStr ''data/libri''),
                    (''target_path'', PStr ''data/libri''),
                    (''train_set'', PList [PStr ''train-clean-100''])]),
            (''runner'', PDict [(''duo_feature'', PInt 1)]),
            (''transformer'', PDict [(''input_dim'', PInt 160)])]"

definition example_online_config :: pyval where
  "example_online_config =
     PDict [(''dataloader'', PDict [(''data_path'', PStr ''data/libri'')]),
            (''runner'', PDict [(''duo_feature'', PBool False)]),
            (''transformer'', PDict [(''input_dim'', PInt 160)]),
            (''online'', PDict [(''input'', PDict [(''feat_type'', PStr ''mel'')])])]"

definition example_world_without_data :: world where
  "example_world_without_data =
     example_world\<lparr>fs := [(''config'', Dir), (''config/base.yaml'', File ''transformer: {}'')]\<rparr>"

section \<open>Running actions\<close>

lemma bind_ret [simp]: "bind (ret x) f = f x"
  by (simp add: bind_def ret_def)

lemma bind_raise [simp]: "bind (raise e) f = raise e"
  by (simp add: bind_def raise_def)

lemma bind_lift_Inr [simp]: "bind (lift (Inr x)) f = f x"
  by (simp add: bind_def lift_def)

lemma bind_lift_Inl [simp]: "bind (lift (Inl e)) f = raise e"
  by (simp add: bind_def lift_def raise_def)

lemma ret_apply [simp]: "ret x w = (Inr x, w)"
  by (simp add: ret_def)

lemma raise_apply [simp]: "raise e w = (Inl e, w)"
  by (simp add: raise_def)

lemma lift_apply [simp]: "lift r w = (r, w)"
  by (simp add: lift_def)

lemma bind_apply_Inl: "m w = (Inl e, w') \<Longrightarrow> bind m f w = (Inl e, w')"
  by (simp add: bind_def)

lemma bind_apply_Inr: "m w = (Inr x, w') \<Longrightarrow> bind m f w = f x w'"
  by (simp add: bind_def)

subsection \<open>Following the record of a run\<close>

lemma only_emits_ret [intro!]: "only_emits P (ret x)"
  by (simp add: only_emits_def)

lemma only_emits_raise [intro!]: "only_emits P (raise e)"
  by (simp add: only_emits_def)

lemma only_emits_lift [intro!]: "only_emits P (lift r)"
  by (simp add: only_emits_def)

lemma only_emits_bind:
  assumes "only_emits P m" and "\<And>x. only_emits P (f x)"
  shows "only_emits P (bind m f)"
  unfolding only_emits_def
proof
  fix w
  from assms(1) obtain evs where 1: "trace (snd (m w)) = trace w @ evs" and p1: "list_all P evs"
    unfolding only_emits_def by blast
  show "\<exists>evs. trace (snd (bind m f w)) = trace w @ evs \<and> list_all P evs"
  proof (cases "m w")
    case (Pair r w')
    show ?thesis
    proof (cases r)
      case (Inl e)
      with Pair 1 p1 show ?thesis by (auto simp: bind_def)
    next
      case (Inr x)
      from assms(2) [of x] obtain evs' where
        2: "trace (snd (f x w')) = trace w' @ evs'" and p2: "list_all P evs'"
        unfolding only_emits_def by blast
      from Pair Inr 1 2 have "trace (snd (bind m f w)) = trace w @ (evs @ evs')"
        by (simp add: bind_def)
      with p1 p2 show ?thesis by (metis list_all_append)
    qed
  qed
qed

lemma only_emits_bind_lift:
  assumes "\<And>x. r = Inr x \<Longrightarrow> only_emits P (f x)"
  shows "only_emits P (bind (lift r) f)"
  using assms by (cases r) auto

lemma only_emits_emit: "P ev \<Longrightarrow> only_emits P (emit ev)"
  by (simp add: only_emits_def emit_def)

lemma only_emits_extcall: "P (Call c) \<Longrightarrow> only_emits P (extcall en c)"
  by (simp add: only_emits_def extcall_def split: prod.splits)

lemma only_emits_os_path_exists [intro!]: "only_emits P (os_path_exists v)"
  by (cases v) (simp_all add: only_emits_def os_path_exists_def)

lemma only_emits_if:
  "(b \<Longrightarrow> only_emits P m) \<Longrightarrow> (\<not> b \<Longrightarrow> only_emits P n) \<Longrightarrow> only_emits P (if b then m else n)"
  by simp

lemma only_emitsD:
  "only_emits P m \<Longrightarrow> e \<in> set (new_events w (snd (m w))) \<Longrightarrow> P e"
  by (auto simp: only_emits_def new_events_def list_all_iff dest!: spec [of _ w])

lemma only_emits_new_events:
  "only_emits P m \<Longrightarrow> trace (snd (m w)) = trace w @ new_events w (snd (m w))"
  by (auto simp: only_emits_def new_events_def dest!: spec [of _ w])

lemma only_emits_mono:
  "only_emits P m \<Longrightarrow> (\<And>e. P e \<Longrightarrow> Q e) \<Longrightarrow> only_emits Q m"
  unfolding only_emits_def list_all_iff by blast

lemma returns_after_raise: "returns_after G (raise e)"
  by (simp add: returns_after_def)

lemma returns_after_bind_right:
  assumes "only_emits (\<lambda>e. True) m" and "\<And>x. returns_after G (f x)"
  shows "returns_after G (bind m f)"
  unfolding returns_after_def
proof (intro allI impI)
  fix w y
  assume ok: "fst (bind m f w) = Inr y"
  obtain r w' where mw: "m w = (r, w')" by (cases "m w")
  with ok obtain x where r: "r = Inr x" by (cases r) (auto simp: bind_def)
  from mw r have b: "bind m f w = f x w'" by (simp add: bind_def)
  from assms(1) mw obtain evs1 where 1: "trace w' = trace w @ evs1"
    unfolding only_emits_def by (metis snd_conv)
  from assms(2) [of x] ok b obtain evs2 where
    2: "trace (snd (f x w')) = trace w' @ evs2" and g: "list_ex G evs2"
    unfolding returns_after_def by auto
  from 1 2 b have "trace (snd (bind m f w)) = trace w @ (evs1 @ evs2)" by simp
  moreover from g have "list_ex G (evs1 @ evs2)" by (auto simp: list_ex_iff)
  ultimately show "\<exists>evs. trace (snd (bind m f w)) = trace w @ evs \<and> list_ex G evs"
    by blast
qed

lemma returns_after_bind_left:
  assumes "returns_after G m" and "\<And>x. only_emits (\<lambda>e. True) (f x)"
  shows "returns_after G (bind m f)"
  unfolding returns_after_def
proof (intro allI impI)
  fix w y
  assume ok: "fst (bind m f w) = Inr y"
  obtain r w' where mw: "m w = (r, w')" by (cases "m w")
  with ok obtain x where r: "r = Inr x" by (cases r) (auto simp: bind_def)
  from mw r have b: "bind m f w = f x w'" by (simp add: bind_def)
  from assms(1) mw r obtain evs1 where 1: "trace w' = trace w @ evs1" and g: "list_ex G evs1"
    unfolding returns_after_def by (metis fst_conv snd_conv)
  from assms(2) [of x] obtain evs2 where 2: "trace (snd (f x w')) = trace w' @ evs2"
    unfolding only_emits_def by blast
  from 1 2 b have "trace (snd (bind m f w)) = trace w @ (evs1 @ evs2)" by simp
  moreover from g have "list_ex G (evs1 @ evs2)" by (auto simp: list_ex_iff)
  ultimately show "\<exists>evs. trace (snd (bind m f w)) = trace w @ evs \<and> list_ex G evs"
    by blast
qed

lemma returns_after_bind_lift:
  assumes "\<And>x. r = Inr x \<Longrightarrow> returns_after G (f x)"
  shows "returns_after G (bind (lift r) f)"
  using assms by (cases r) (auto simp: returns_after_raise)

lemma returns_after_extcall: "G (Call c) \<Longrightarrow> returns_after G (extcall en c)"
  by (simp add: returns_after_def extcall_def split: prod.splits)

lemma returns_after_if:
  "(b \<Longrightarrow> returns_after G m) \<Longrightarrow> (\<not> b \<Longrightarrow> returns_after G n)
   \<Longrightarrow> returns_after G (if b then m else n)"
  by simp

lemma returns_afterD:
  "returns_after G m \<Longrightarrow> fst (m w) = Inr x \<Longrightarrow> \<exists>e \<in> set (new_events w (snd (m w))). G e"
  by (auto simp: returns_after_def new_events_def list_ex_iff dest!: spec [of _ w])

section \<open>Resuming from a directory without checkpoints\<close>

text \<open>
  When the resume path is a directory and the pattern of line 72 matches nothing,
  \<^verbatim>\<open>get_upstream_args\<close> raises the assertion's error; nothing is loaded and the
  world is as before.
\<close>

lemma get_upstream_args_empty_glob:
  assumes "cli_resume c = Some resume"
    and "os_path_isdir (fs w) resume"
    and "glob (fs w) (resume @ ''/*.ckpt'') = []"
  shows "get_upstream_args en c w = (Inl AssertionError, w)"
  using assms by (simp add: get_upstream_args_def select_resume_ckpt_def bind_def)

lemma get_upstream_args_empty_glob_example:
  "os_path_isdir (fs example_world) ''result/empty''
   \<and> glob (fs example_world) (''result/empty'' @ ''/*.ckpt'') = []
   \<and> get_upstream_args example_env (example_cli\<lparr>cli_resume := Some ''result/empty''\<rparr>)
        example_world = (Inl AssertionError, example_world)"
proof -
  have c: "cli_resume (example_cli\<lparr>cli_resume := Some ''result/empty''\<rparr>) = Some ''result/empty''"
    by simp
  have d: "os_path_isdir (fs example_world) ''result/empty''"
    by code_simp
  have g: "glob (fs example_world) (''result/empty'' @ ''/*.ckpt'') = []"
    by code_simp
  from get_upstream_args_empty_glob [OF c d g, of example_env] d g
  show ?thesis by simp
qed

text \<open>
  Claim C5 says that loading fails for every resume directory that holds no checkpoint
  file. The code does not keep to it. Line 72 hands the resume path to \<^verbatim>\<open>glob\<close>
  unescaped, so a wildcard character in the path is expanded: the directory
  \<^verbatim>\<open>exp/e[1]\<close> of the second example tree is empty, yet the pattern
  \<^verbatim>\<open>exp/e[1]/*.ckpt\<close> matches the checkpoint of its sibling \<^verbatim>\<open>exp/e1\<close>,
  the assertion of line 73 passes, and \<^verbatim>\<open>get_upstream_args\<close> loads that file and
  returns.
\<close>

theorem get_upstream_args_wildcard_empty_dir:
  "os_path_isdir (fs example_wildcard_world) ''exp/e[1]''
   \<and> listdir (fs example_wildcard_world) False ''exp/e[1]'' = []
   \<and> glob (fs example_wildcard_world) (''exp/e[1]'' @ ''/*.ckpt'') = [''exp/e1/states-7.ckpt'']
   \<and> trace (snd (get_upstream_args example_env (example_cli\<lparr>cli_resume := Some ''exp/e[1]''\<rparr>)
        example_wildcard_world)) = [Call (TorchLoad ''exp/e1/states-7.ckpt'')]
   \<and> (\<exists>args. fst (get_upstream_args example_env (example_cli\<lparr>cli_resume := Some ''exp/e[1]''\<rparr>)
        example_wildcard_world) = Inr (args, example_config))"
proof -
  let ?r = "get_upstream_args example_env (example_cli\<lparr>cli_resume := Some ''exp/e[1]''\<rparr>)
              example_wildcard_world"
  have d: "os_path_isdir (fs example_wildcard_world) ''exp/e[1]''"
    by code_simp
  have l: "listdir (fs example_wildcard_world) False ''exp/e[1]'' = []"
    by code_simp
  have g: "glob (fs example_wildcard_world) (''exp/e[1]'' @ ''/*.ckpt'')
             = [''exp/e1/states-7.ckpt'']"
    by code_simp
  have t: "trace (snd ?r) = [Call (TorchLoad ''exp/e1/states-7.ckpt'')]"
    by code_simp
  have "case fst ?r of Inl e \<Rightarrow> False | Inr (args, config) \<Rightarrow> config = example_config"
    by code_simp
  then have r: "\<exists>args. fst ?r = Inr (args, example_config)"
    by (cases "fst ?r") auto
  from d l g t r show ?thesis by blast
qed

section \<open>Resuming from a directory of numbered checkpoints\<close>

subsection \<open>Splitting a path and reading its number\<close>

lemma split_on_not_Nil [simp]: "split_on c s \<noteq> []"
  by (induction s) (auto split: list.splits)

lemma split_on_absent: "c \<notin> set s \<Longrightarrow> split_on c s = [s]"
  by (induction s) auto

lemma tl_split_on_append: "tl (split_on c (xs @ c # ys)) \<noteq> []"
  by (induction xs) (auto split: list.splits)

lemma last_split_on_append: "last (split_on c (xs @ c # ys)) = last (split_on c ys)"
proof (induction xs)
  case Nil
  then show ?case by simp
next
  case (Cons x xs)
  from tl_split_on_append [of c xs ys] obtain y z zs where
    "split_on c (xs @ c # ys) = y # z # zs"
    by (cases "split_on c (xs @ c # ys)") (auto simp: neq_Nil_conv)
  with Cons show ?case by auto
qed

lemma hd_split_on_append: "c \<notin> set xs \<Longrightarrow> hd (split_on c (xs @ c # ys)) = xs"
  by (induction xs) (auto split: list.splits)

lemma parse_digits_all:
  "list_all is_digit cs \<Longrightarrow> parse_digits cs acc = Some (foldl (\<lambda>a c. 10 * a + digit_val c) acc cs)"
  by (induction cs acc rule: parse_digits.induct) auto

lemma parse_unsigned_digits:
  "ds \<noteq> [] \<Longrightarrow> list_all is_digit ds \<Longrightarrow> parse_unsigned ds = Some (decimal ds)"
  by (cases ds) (auto simp: parse_unsigned_def decimal_def parse_digits_all digit_val_def)

lemma digit_not_space: "is_digit c \<Longrightarrow> \<not> is_space c"
  by (auto simp: is_digit_def is_space_def)

lemma strip_digits: "list_all is_digit ds \<Longrightarrow> strip ds = ds"
proof (cases ds rule: rev_cases)
  case Nil
  then show ?thesis by (simp add: strip_def)
next
  case (snoc ys y)
  assume a: "list_all is_digit ds"
  then have 1: "dropWhile is_space ds = ds"
    by (cases ds) (auto simp: digit_not_space)
  from a snoc have "\<not> is_space y" by (simp add: digit_not_space)
  with snoc 1 show ?thesis by (simp add: strip_def)
qed

lemma py_int_digits:
  assumes "ds \<noteq> []" and "list_all is_digit ds"
  shows "py_int ds = Inr (decimal ds)"
proof -
  from assms have "is_digit (hd ds)" by (cases ds) auto
  then have "hd ds \<noteq> CHR ''-''" and "hd ds \<noteq> CHR ''+''"
    by (auto simp: is_digit_def)
  with assms show ?thesis
    by (simp add: py_int_def strip_digits parse_unsigned_digits Let_def)
qed

lemma numeric_step_suffix_shape:
  assumes "numeric_step_suffix p = Some ds"
  shows "ds \<noteq> [] \<and> list_all is_digit ds \<and> (\<exists>pre. p = pre @ CHR ''-'' # ds @ ''.ckpt'')"
proof -
  define stem where "stem = take (length p - 5) p"
  from assms have ext: "drop (length p - 5) p = ''.ckpt''" and hy: "CHR ''-'' \<in> set stem"
    and ds: "ds = rev (takeWhile (\<lambda>c. c \<noteq> CHR ''-'') (rev stem))"
    and ne: "ds \<noteq> []" and dg: "list_all is_digit ds"
    by (auto simp: numeric_step_suffix_def Let_def stem_def split: if_splits)
  from hy obtain a b where ab: "stem = a @ CHR ''-'' # b" and nb: "CHR ''-'' \<notin> set b"
    by (meson split_list_last)
  have "takeWhile (\<lambda>c. c \<noteq> CHR ''-'') (rev b @ CHR ''-'' # rev a) = rev b"
    using nb by (auto simp: takeWhile_tail)
  with ds ab have "ds = b" by simp
  moreover have "p = stem @ ''.ckpt''"
    using ext append_take_drop_id [of "length p - 5" p] by (simp add: stem_def)
  ultimately show ?thesis using ab ne dg by auto
qed

lemma ckpt_step_numeric:
  assumes "numeric_step_suffix p = Some ds"
  shows "ckpt_step p = Inr (decimal ds)"
proof -
  from numeric_step_suffix_shape [OF assms] obtain pre where
    ne: "ds \<noteq> []" and dg: "list_all is_digit ds" and p: "p = pre @ CHR ''-'' # ds @ ''.ckpt''"
    by blast
  from dg have nh: "CHR ''-'' \<notin> set ds" and nd: "CHR ''.'' \<notin> set ds"
    by (auto simp: list_all_iff is_digit_def)
  have "last (split_on CHR ''-'' p) = ds @ ''.ckpt''"
    using nh by (simp add: p last_split_on_append split_on_absent)
  moreover have "hd (split_on CHR ''.'' (ds @ ''.ckpt'')) = ds"
    using hd_split_on_append [OF nd, of "''ckpt''"] by simp
  ultimately show ?thesis
    by (simp add: ckpt_step_def py_int_digits [OF ne dg])
qed

lemma ckpt_step_value: "numeric_step_suffix p \<noteq> None \<Longrightarrow> ckpt_step p = Inr (step_value p)"
  by (auto simp: step_value_def ckpt_step_numeric)

lemma collect_map_Inr:
  "\<forall>x \<in> set xs. key x = Inr (g x) \<Longrightarrow> collect (map key xs) = Inr (map g xs)"
  by (induction xs) auto

lemma zip_map_self: "set (zip (map g xs) xs) = (\<lambda>x. (g x, x)) ` set xs"
  by (induction xs) auto

lemma sorted_le_last:
  fixes xs :: "int list"
  shows "sorted xs \<Longrightarrow> x \<in> set xs \<Longrightarrow> x \<le> last xs"
  by (induction xs) auto

lemma py_sorted_last:
  fixes g :: "'a \<Rightarrow> int"
  assumes keys: "\<forall>x \<in> set xs. key x = Inr (g x)" and ne: "xs \<noteq> []"
  shows "\<exists>ys. py_sorted key xs = Inr ys \<and> ys \<noteq> [] \<and> last ys \<in> set xs
            \<and> (\<forall>x \<in> set xs. g x \<le> g (last ys))"
proof -
  define zs where "zs = sort_key fst (zip (map g xs) xs)"
  have set_zs: "set zs = (\<lambda>x. (g x, x)) ` set xs"
    by (simp add: zs_def zip_map_self)
  from ne have zne: "zs \<noteq> []"
    using set_zs by (metis empty_is_image set_empty)
  have srt: "sorted (map fst zs)"
    by (simp add: zs_def)
  from zne have "last zs \<in> set zs" by simp
  with set_zs obtain m where m: "m \<in> set xs" and lz: "last zs = (g m, m)" by auto
  have mx: "g x \<le> g m" if "x \<in> set xs" for x
  proof -
    from that set_zs have "g x \<in> set (map fst zs)" by force
    with srt have "g x \<le> last (map fst zs)" by (rule sorted_le_last)
    with zne lz show ?thesis by (simp add: last_map)
  qed
  have "py_sorted key xs = Inr (map snd zs)"
    by (simp add: py_sorted_def collect_map_Inr [OF keys] zs_def)
  moreover have "last (map snd zs) = m" using zne lz by (simp add: last_map)
  ultimately show ?thesis using zne m mx by auto
qed

lemma select_resume_ckpt_max:
  assumes "os_path_isdir f resume"
    and "glob f (resume @ ''/*.ckpt'') \<noteq> []"
    and "\<forall>p \<in> set (glob f (resume @ ''/*.ckpt'')). numeric_step_suffix p \<noteq> None"
  shows "\<exists>sel \<in> set (glob f (resume @ ''/*.ckpt'')).
           select_resume_ckpt f resume = Inr sel
           \<and> (\<forall>p \<in> set (glob f (resume @ ''/*.ckpt'')). step_value p \<le> step_value sel)"
proof -
  let ?g = "glob f (resume @ ''/*.ckpt'')"
  from assms(3) have keys: "\<forall>p \<in> set ?g. ckpt_step p = Inr (step_value p)"
    by (simp add: ckpt_step_value)
  from py_sorted_last [OF keys assms(2)] obtain ys where
    "py_sorted ckpt_step ?g = Inr ys" "last ys \<in> set ?g"
    "\<forall>p \<in> set ?g. step_value p \<le> step_value (last ys)"
    by blast
  with assms(1,2) show ?thesis
    by (auto simp: select_resume_ckpt_def Let_def)
qed

lemma resume_trace:
  assumes "cli_resume c = Some r" and "select_resume_ckpt (fs w) r = Inr p"
  shows "trace (snd (get_upstream_args en c w)) = trace w @ [Call (TorchLoad p)]"
  using assms
  by (simp add: get_upstream_args_def bind_def extcall_def split: prod.splits sum.splits)


text \<open>
  When the resume path is a directory and every path that the pattern of line 72 matches
  ends in a hyphen, digits and the extension, the sort key of each path is the value of
  its digits, the checkpoint \<^verbatim>\<open>get_upstream_args\<close> selects is one of these paths
  with the greatest value, and this is the file it loads. The order is the order of the
  numbers, not of the strings: in the example directory \<^verbatim>\<open>states-10.ckpt\<close> is
  selected although it is the smaller string.
\<close>

lemma select_max_step_of_glob:
  assumes "cli_resume c = Some resume"
    and "os_path_isdir (fs w) resume"
    and "glob (fs w) (resume @ ''/*.ckpt'') \<noteq> []"
    and "\<forall>p \<in> set (glob (fs w) (resume @ ''/*.ckpt'')). numeric_step_suffix p \<noteq> None"
  shows "\<exists>sel \<in> set (glob (fs w) (resume @ ''/*.ckpt'')).
           select_resume_ckpt (fs w) resume = Inr sel
           \<and> (\<forall>p \<in> set (glob (fs w) (resume @ ''/*.ckpt'')).
                 ckpt_step p = Inr (step_value p) \<and> step_value p \<le> step_value sel)
           \<and> trace (snd (get_upstream_args en c w)) = trace w @ [Call (TorchLoad sel)]"
proof -
  from select_resume_ckpt_max [OF assms(2,3,4)] obtain sel where
    sel: "sel \<in> set (glob (fs w) (resume @ ''/*.ckpt''))"
    and res: "select_resume_ckpt (fs w) resume = Inr sel"
    and mx: "\<forall>p \<in> set (glob (fs w) (resume @ ''/*.ckpt'')). step_value p \<le> step_value sel"
    by blast
  from assms(4) have "\<forall>p \<in> set (glob (fs w) (resume @ ''/*.ckpt'')). ckpt_step p = Inr (step_value p)"
    by (simp add: ckpt_step_value)
  with sel res mx resume_trace [OF assms(1) res, of en] show ?thesis by blast
qed

lemma select_max_step_of_glob_example:
  "glob (fs example_world) (''result/run'' @ ''/*.ckpt'')
     = [''result/run/states-9.ckpt'', ''result/run/states-10.ckpt'']
   \<and> select_resume_ckpt (fs example_world) ''result/run'' = Inr ''result/run/states-10.ckpt''
   \<and> step_value ''result/run/states-9.ckpt'' = 9
   \<and> step_value ''result/run/states-10.ckpt'' = 10
   \<and> str_less ''result/run/states-10.ckpt'' ''result/run/states-9.ckpt''
   \<and> trace (snd (get_upstream_args example_env (example_cli\<lparr>cli_resume := Some ''result/run''\<rparr>)
        example_world)) = [Call (TorchLoad ''result/run/states-10.ckpt'')]"
proof -
  have c: "cli_resume (example_cli\<lparr>cli_resume := Some ''result/run''\<rparr>) = Some ''result/run''"
    by simp
  have d: "os_path_isdir (fs example_world) ''result/run''"
    by code_simp
  have g: "glob (fs example_world) (''result/run'' @ ''/*.ckpt'')
             = [''result/run/states-9.ckpt'', ''result/run/states-10.ckpt'']"
    by code_simp
  have n9: "numeric_step_suffix ''result/run/states-9.ckpt'' = Some ''9''"
    by code_simp
  have n10: "numeric_step_suffix ''result/run/states-10.ckpt'' = Some ''10''"
    by code_simp
  have v9: "step_value ''result/run/states-9.ckpt'' = 9"
    by code_simp
  have v10: "step_value ''result/run/states-10.ckpt'' = 10"
    by code_simp
  have l: "str_less ''result/run/states-10.ckpt'' ''result/run/states-9.ckpt''"
    by code_simp
  have t: "trace example_world = []"
    by (simp add: example_world_def)
  have ne: "glob (fs example_world) (''result/run'' @ ''/*.ckpt'') \<noteq> []"
    by (simp only: g) simp
  have al: "\<forall>p \<in> set (glob (fs example_world) (''result/run'' @ ''/*.ckpt'')).
              numeric_step_suffix p \<noteq> None"
    by (simp only: g) (simp add: n9 n10)
  from select_max_step_of_glob [OF c d ne al, of example_env]
  obtain sel where s: "sel \<in> set (glob (fs example_world) (''result/run'' @ ''/*.ckpt''))"
    and r: "select_resume_ckpt (fs example_world) ''result/run'' = Inr sel"
    and m: "\<forall>p \<in> set (glob (fs example_world) (''result/run'' @ ''/*.ckpt'')).
              ckpt_step p = Inr (step_value p) \<and> step_value p \<le> step_value sel"
    and tr: "trace (snd (get_upstream_args example_env
               (example_cli\<lparr>cli_resume := Some ''result/run''\<rparr>) example_world))
             = trace example_world @ [Call (TorchLoad sel)]"
    by blast
  from s g have "sel = ''result/run/states-9.ckpt'' \<or> sel = ''result/run/states-10.ckpt''"
    by simp
  moreover from m g have "step_value ''result/run/states-10.ckpt'' \<le> step_value sel"
    by simp
  ultimately have "sel = ''result/run/states-10.ckpt''"
    using v9 v10 by auto
  with g r v9 v10 l tr t show ?thesis by simp
qed

text \<open>
  Claim C1 says that for every resume directory of numbered checkpoints the file with the
  greatest number is selected. The code does not keep to it, for the reason it breaks
  claim C5: the resume path reaches \<^verbatim>\<open>glob\<close> unescaped. The directory
  \<^verbatim>\<open>exp/run[1]\<close> of the second example tree holds the checkpoints 5 and 12, but
  the pattern \<^verbatim>\<open>exp/run[1]/*.ckpt\<close> lists the sibling \<^verbatim>\<open>exp/run1\<close>, and
  \<^verbatim>\<open>get_upstream_args\<close> loads checkpoint 3 of that directory.
\<close>

theorem get_upstream_args_wildcard_numbered_dir:
  "os_path_isdir (fs example_wildcard_world) ''exp/run[1]''
   \<and> listdir (fs example_wildcard_world) False ''exp/run[1]''
       = [''states-5.ckpt'', ''states-12.ckpt'']
   \<and> glob (fs example_wildcard_world) (''exp/run[1]'' @ ''/*.ckpt'')
       = [''exp/run1/states-3.ckpt'']
   \<and> select_resume_ckpt (fs example_wildcard_world) ''exp/run[1]''
       = Inr ''exp/run1/states-3.ckpt''
   \<and> trace (snd (get_upstream_args example_env
        (example_cli\<lparr>cli_resume := Some ''exp/run[1]''\<rparr>) example_wildcard_world))
       = [Call (TorchLoad ''exp/run1/states-3.ckpt'')]"
proof -
  have d: "os_path_isdir (fs example_wildcard_world) ''exp/run[1]''"
    by code_simp
  have l: "listdir (fs example_wildcard_world) False ''exp/run[1]''
             = [''states-5.ckpt'', ''states-12.ckpt'']"
    by code_simp
  have g: "glob (fs example_wildcard_world) (''exp/run[1]'' @ ''/*.ckpt'')
             = [''exp/run1/states-3.ckpt'']"
    by code_simp
  have r: "select_resume_ckpt (fs example_wildcard_world) ''exp/run[1]''
             = Inr ''exp/run1/states-3.ckpt''"
    by code_simp
  have t: "trace (snd (get_upstream_args example_env
             (example_cli\<lparr>cli_resume := Some ''exp/run[1]''\<rparr>) example_wildcard_world))
           = [Call (TorchLoad ''exp/run1/states-3.ckpt'')]"
    by code_simp
  from d l g r t show ?thesis by blast
qed

section \<open>Resuming from a file\<close>

text \<open>
  Claim C10. When the resume path is not a directory, \<^verbatim>\<open>get_upstream_args\<close> takes
  the path itself as the checkpoint file: the only call it makes is the load of this very
  path, neither the assertion nor the parsing of a number can fail, and on success the
  \<^verbatim>\<open>resume\<close> field of the arguments is the path.
\<close>

theorem get_upstream_args_resume_file:
  assumes "cli_resume c = Some resume"
    and "\<not> os_path_isdir (fs w) resume"
  shows "select_resume_ckpt (fs w) resume = Inr resume
       \<and> trace (snd (get_upstream_args en c w)) = trace w @ [Call (TorchLoad resume)]
       \<and> fst (get_upstream_args en c w) \<noteq> Inl AssertionError
       \<and> fst (get_upstream_args en c w) \<noteq> Inl ValueError
       \<and> (\<forall>args config. fst (get_upstream_args en c w) = Inr (args, config)
            \<longrightarrow> getattr args ''resume'' = Inr (PStr resume))"
proof -
  have sel: "select_resume_ckpt (fs w) resume = Inr resume"
    using assms(2) by (simp add: select_resume_ckpt_def)
  have "fst (get_upstream_args en c w) \<noteq> Inl AssertionError"
    and "fst (get_upstream_args en c w) \<noteq> Inl ValueError"
    using assms(1) sel
    by (auto simp: get_upstream_args_def bind_def extcall_def update_args_def
             split: prod.splits sum.splits option.splits pyval.splits
             elim!: getitem.elims vars.elims)
  moreover have "getattr args ''resume'' = Inr (PStr resume)"
    if "fst (get_upstream_args en c w) = Inr (args, config)" for args config
    using that assms(1) sel
    by (auto simp: get_upstream_args_def bind_def extcall_def setattr_def getattr_def
                   update_conv'
             split: prod.splits sum.splits)
  ultimately show ?thesis
    using sel resume_trace [OF assms(1) sel, of en] by blast
qed

theorem get_upstream_args_resume_file_witness:
  "\<not> os_path_isdir (fs example_world) ''result/run/states-9.ckpt''
   \<and> select_resume_ckpt (fs example_world) ''result/run/states-9.ckpt''
       = Inr ''result/run/states-9.ckpt''
   \<and> trace (snd (get_upstream_args example_env
        (example_cli\<lparr>cli_resume := Some ''result/run/states-9.ckpt''\<rparr>) example_world))
       = [Call (TorchLoad ''result/run/states-9.ckpt'')]
   \<and> (\<exists>args config.
         fst (get_upstream_args example_env
           (example_cli\<lparr>cli_resume := Some ''result/run/states-9.ckpt''\<rparr>) example_world)
           = Inr (args, config)
         \<and> getattr args ''resume'' = Inr (PStr ''result/run/states-9.ckpt''))"
proof -
  let ?c = "example_cli\<lparr>cli_resume := Some ''result/run/states-9.ckpt''\<rparr>"
  have c: "cli_resume ?c = Some ''result/run/states-9.ckpt''"
    by simp
  have d: "\<not> os_path_isdir (fs example_world) ''result/run/states-9.ckpt''"
    by code_simp
  have t: "trace example_world = []"
    by (simp add: example_world_def)
  have "case fst (get_upstream_args example_env ?c example_world) of
          Inl e \<Rightarrow> False | Inr r \<Rightarrow> True"
    by code_simp
  then obtain args config where
    r: "fst (get_upstream_args example_env ?c example_world) = Inr (args, config)"
    by (cases "fst (get_upstream_args example_env ?c example_world)") auto
  from get_upstream_args_resume_file [OF c d, of example_env] r t d
  show ?thesis by auto
qed

section \<open>Resuming: arguments and configuration from the checkpoint\<close>

lemma map_of_fold_update:
  "distinct (map fst e) \<Longrightarrow>
   map_of (fold (\<lambda>(k, v). AList.update k v) e d) k
     = (case map_of e k of None \<Rightarrow> map_of d k | Some v \<Rightarrow> Some v)"
proof (induction e arbitrary: d)
  case Nil
  then show ?case by simp
next
  case (Cons a e)
  obtain k' v' where a: "a = (k', v')" by (cases a)
  from Cons.prems a have d: "distinct (map fst e)" and nk: "k' \<notin> fst ` set e" by auto
  from nk have "map_of e k' = None" by (simp add: map_of_eq_None_iff)
  with Cons.IH [OF d] a show ?case
    by (auto simp: update_conv' split: option.splits)
qed

lemma map_of_dict_update:
  "map_of (dict_update d (AList.clearjunk e)) k
     = (case map_of e k of None \<Rightarrow> map_of d k | Some v \<Rightarrow> Some v)"
  by (simp add: dict_update_def map_of_fold_update distinct_clearjunk map_of_clearjunk)

lemma getattr_update_args:
  "update_args old new = Inr args \<Longrightarrow>
   \<exists>fields. new = PNamespace fields
     \<and> (\<forall>k. getattr args k = (case map_of fields k of None \<Rightarrow> getattr old k | Some v \<Rightarrow> Inr v))"
  by (cases new) (auto simp: update_args_def getattr_def map_of_dict_update split: option.splits)

lemma getattr_setattr:
  "getattr (setattr ns k v) k' = (if k' = k then Inr v else getattr ns k')"
  by (simp add: getattr_def setattr_def update_conv')

text \<open>
  Claim C2. When a resume path is given and \<^verbatim>\<open>get_upstream_args\<close> returns, the
  checkpoint it loaded has a \<^verbatim>\<open>Settings\<close> entry whose \<^verbatim>\<open>Paras\<close> is a namespace
  and whose \<^verbatim>\<open>Config\<close> is the configuration returned. Every field of the returned
  arguments has the value the checkpoint's namespace gives it, or, where the checkpoint
  has no such field, the value parsed from the command line; the one exception is
  \<^verbatim>\<open>resume\<close>, which is the path of the checkpoint file that was resolved.
\<close>

theorem get_upstream_args_resume_merge:
  assumes "cli_resume c = Some resume"
    and "get_upstream_args en c w = (Inr (args, config), w')"
  shows "\<exists>ckpt_path ckpt settings paras.
           select_resume_ckpt (fs w) resume = Inr ckpt_path
         \<and> fst (ext en (TorchLoad ckpt_path) w) = Inr ckpt
         \<and> getitem ckpt ''Settings'' = Inr settings
         \<and> getitem settings ''Paras'' = Inr (PNamespace paras)
         \<and> getitem settings ''Config'' = Inr config
         \<and> (\<forall>k. getattr args k =
                (if k = ''resume'' then Inr (PStr ckpt_path)
                 else case map_of paras k of
                        None \<Rightarrow> getattr (parse_args c) k
                      | Some v \<Rightarrow> Inr v))"
proof -
  from assms obtain p where p: "select_resume_ckpt (fs w) resume = Inr p"
    by (cases "select_resume_ckpt (fs w) resume")
       (auto simp: get_upstream_args_def bind_def)
  obtain r w1 where e: "ext en (TorchLoad p) w = (r, w1)"
    by (cases "ext en (TorchLoad p) w")
  from assms p e obtain ckpt where r: "r = Inr ckpt"
    by (cases r) (auto simp: get_upstream_args_def bind_def extcall_def)
  from assms p e r obtain settings where s: "getitem ckpt ''Settings'' = Inr settings"
    by (cases "getitem ckpt ''Settings''")
       (auto simp: get_upstream_args_def bind_def extcall_def)
  from assms p e r s obtain paras where pa: "getitem settings ''Paras'' = Inr paras"
    by (cases "getitem settings ''Paras''")
       (auto simp: get_upstream_args_def bind_def extcall_def)
  from assms p e r s pa obtain merged where u: "update_args (parse_args c) paras = Inr merged"
    by (cases "update_args (parse_args c) paras")
       (auto simp: get_upstream_args_def bind_def extcall_def)
  from assms p e r s pa u have cf: "getitem settings ''Config'' = Inr config"
    and ar: "args = setattr merged ''resume'' (PStr p)"
    by (cases "getitem settings ''Config''";
        auto simp: get_upstream_args_def bind_def extcall_def)+
  from getattr_update_args [OF u] obtain fields where
    f: "paras = PNamespace fields"
    and g: "\<forall>k. getattr merged k
              = (case map_of fields k of None \<Rightarrow> getattr (parse_args c) k | Some v \<Rightarrow> Inr v)"
    by blast
  have "\<forall>k. getattr args k =
          (if k = ''resume'' then Inr (PStr p)
           else case map_of fields k of None \<Rightarrow> getattr (parse_args c) k | Some v \<Rightarrow> Inr v)"
    using g by (simp add: ar getattr_setattr)
  with p e r s pa f cf show ?thesis by auto
qed


theorem get_upstream_args_resume_merge_witness:
  "\<exists>args config w'.
     get_upstream_args example_env (example_cli\<lparr>cli_resume := Some ''result/run''\<rparr>)
       example_world = (Inr (args, config), w')
     \<and> config = example_config
     \<and> getattr args ''seed'' = Inr (PInt 7)
     \<and> getattr args ''ckpdir'' = Inr (PStr [])
     \<and> getattr args ''resume'' = Inr (PStr ''result/run/states-10.ckpt'')"
proof -
  let ?c = "example_cli\<lparr>cli_resume := Some ''result/run''\<rparr>"
  have c: "cli_resume ?c = Some ''result/run''"
    by simp
  have "case get_upstream_args example_env ?c example_world of
          (Inl e, w') \<Rightarrow> False | (Inr r, w') \<Rightarrow> True"
    by code_simp
  then obtain args config w' where
    r: "get_upstream_args example_env ?c example_world = (Inr (args, config), w')"
    by (auto split: prod.splits sum.splits)
  from get_upstream_args_resume_merge [OF c r] obtain ckpt_path ckpt settings paras where
    1: "select_resume_ckpt (fs example_world) ''result/run'' = Inr ckpt_path"
    and 2: "fst (ext example_env (TorchLoad ckpt_path) example_world) = Inr ckpt"
    and 3: "getitem ckpt ''Settings'' = Inr settings"
    and 4: "getitem settings ''Paras'' = Inr (PNamespace paras)"
    and 5: "getitem settings ''Config'' = Inr config"
    and 6: "\<forall>k. getattr args k =
              (if k = ''resume'' then Inr (PStr ckpt_path)
               else case map_of paras k of
                      None \<Rightarrow> getattr (parse_args ?c) k
                    | Some v \<Rightarrow> Inr v)"
    by blast
  have "select_resume_ckpt (fs example_world) ''result/run'' = Inr ''result/run/states-10.ckpt''"
    by code_simp
  with 1 have p: "ckpt_path = ''result/run/states-10.ckpt''" by simp
  from 2 have ck: "ckpt = example_ckpt" by (simp add: example_env_def)
  from 3 ck have st: "settings = PDict [(''Paras'', PNamespace example_paras),
                                        (''Config'', example_config)]"
    by (simp add: example_ckpt_def)
  from 4 st have pa: "paras = example_paras" by simp
  from 5 st have cf: "config = example_config" by simp
  from 6 [rule_format, of "''seed''"] have a: "getattr args ''seed'' = Inr (PInt 7)"
    by (simp add: pa example_paras_def)
  from 6 [rule_format, of "''ckpdir''"] have b: "getattr args ''ckpdir'' = Inr (PStr [])"
    by (simp add: pa example_paras_def parse_args_def getattr_def example_cli_def)
  from 6 [rule_format, of "''resume''"] have d: "getattr args ''resume'' = Inr (PStr ckpt_path)"
    by simp
  from r cf a b d p show ?thesis by simp
qed

section \<open>The data path\<close>

lemma new_events_append: "trace w' = trace w @ evs \<Longrightarrow> new_events w w' = evs"
  by (simp add: new_events_def)

text \<open>
  Claim C3. When \<^verbatim>\<open>config['dataloader']['data_path']\<close> is a path that is not in
  the file system, \<^verbatim>\<open>get_dataloader\<close> raises the RuntimeError for an invalid data
  path and leaves the world as it was: nothing is printed and no call is recorded, so
  \<^verbatim>\<open>get_Dataloader\<close> has not been called.
\<close>

theorem get_dataloader_missing_data_path:
  assumes "getitem config ''dataloader'' = Inr dl"
    and "getitem dl ''data_path'' = Inr (PStr p)"
    and "map_of (fs w) p = None"
  shows "get_dataloader en args config w
           = (Inl (RuntimeError ''[run_upstream] - Data path not valid:'' (PStr p)), w)"
  using assms by (simp add: get_dataloader_def bind_def os_path_exists_def)

theorem get_dataloader_missing_data_path_witness:
  "getitem example_config ''dataloader''
     = Inr (PDict [(''data_path'', PStr ''data/libri''),
                   (''train_set'', PList [PStr ''train-clean-100'']),
                   (''batch_size'', PInt 6)])
   \<and> map_of (fs (example_world\<lparr>fs := []\<rparr>)) ''data/libri'' = None
   \<and> get_dataloader example_env example_args example_config (example_world\<lparr>fs := []\<rparr>)
       = (Inl (RuntimeError ''[run_upstream] - Data path not valid:'' (PStr ''data/libri'')),
          example_world\<lparr>fs := []\<rparr>)"
proof -
  have a: "getitem example_config ''dataloader''
     = Inr (PDict [(''data_path'', PStr ''data/libri''),
                   (''train_set'', PList [PStr ''train-clean-100'']),
                   (''batch_size'', PInt 6)])"
    by (simp add: example_config_def)
  have b: "getitem (PDict [(''data_path'', PStr ''data/libri''),
                   (''train_set'', PList [PStr ''train-clean-100'']),
                   (''batch_size'', PInt 6)]) ''data_path'' = Inr (PStr ''data/libri'')"
    by simp
  have c: "map_of (fs (example_world\<lparr>fs := []\<rparr>)) ''data/libri'' = None"
    by simp
  from get_dataloader_missing_data_path [OF a b c, of example_env example_args] a c
  show ?thesis by simp
qed

section \<open>The feature mode\<close>

lemma keyword_args_load:
  "keyword_args ((''split'', s) # (''load'', l) # rest) d = Inr kw \<Longrightarrow> map_of kw ''load'' = Some l"
  by (cases d) (auto split: if_splits)

lemma get_dataloader_only_emits:
  "only_emits (\<lambda>e. (\<exists>l. e = Print l) \<or>
       (\<exists>kwargs runner duo. e = Call (GetDataloader kwargs)
          \<and> getitem config ''runner'' = Inr runner
          \<and> getitem runner ''duo_feature'' = Inr duo
          \<and> map_of kwargs ''load'' = Some (PStr (if truthy duo then ''duo'' else ''acoustic''))))
     (get_dataloader en args config)"
  unfolding get_dataloader_def Let_def
  by (intro only_emits_bind_lift only_emits_bind only_emits_os_path_exists only_emits_if
        only_emits_raise only_emits_ret only_emits_emit only_emits_extcall)
     (auto dest: keyword_args_load)


lemma get_dataloader_returns_after:
  "returns_after (\<lambda>e. \<exists>kwargs. e = Call (GetDataloader kwargs)) (get_dataloader en args config)"
  unfolding get_dataloader_def Let_def
  by (intro returns_after_bind_lift returns_after_bind_right returns_after_if
        returns_after_raise returns_after_extcall
        only_emits_bind_lift only_emits_bind only_emits_os_path_exists only_emits_if
        only_emits_raise only_emits_ret only_emits_emit only_emits_extcall)
     auto

text \<open>
  Claim C8. Whenever \<^verbatim>\<open>get_dataloader\<close> calls \<^verbatim>\<open>get_Dataloader\<close>, the
  \<^verbatim>\<open>load\<close> keyword of the call is \<^verbatim>\<open>duo\<close> if
  \<^verbatim>\<open>config['runner']['duo_feature']\<close> is true as a condition and \<^verbatim>\<open>acoustic\<close>
  otherwise; and whenever \<^verbatim>\<open>get_dataloader\<close> returns, it has made this call.
\<close>

theorem get_dataloader_feature_mode:
  "(\<forall>kwargs. Call (GetDataloader kwargs)
        \<in> set (new_events w (snd (get_dataloader en args config w)))
      \<longrightarrow> (\<exists>runner duo.
             getitem config ''runner'' = Inr runner
           \<and> getitem runner ''duo_feature'' = Inr duo
           \<and> map_of kwargs ''load''
               = Some (PStr (if truthy duo then ''duo'' else ''acoustic''))))
   \<and> (\<forall>d. fst (get_dataloader en args config w) = Inr d
      \<longrightarrow> (\<exists>kwargs. Call (GetDataloader kwargs)
             \<in> set (new_events w (snd (get_dataloader en args config w)))))"
proof (intro conjI allI impI)
  fix kwargs
  assume "Call (GetDataloader kwargs)
            \<in> set (new_events w (snd (get_dataloader en args config w)))"
  from only_emitsD [OF get_dataloader_only_emits this]
  show "\<exists>runner duo.
          getitem config ''runner'' = Inr runner
        \<and> getitem runner ''duo_feature'' = Inr duo
        \<and> map_of kwargs ''load'' = Some (PStr (if truthy duo then ''duo'' else ''acoustic''))"
    by auto
next
  fix d
  assume "fst (get_dataloader en args config w) = Inr d"
  from returns_afterD [OF get_dataloader_returns_after this]
  show "\<exists>kwargs. Call (GetDataloader kwargs)
          \<in> set (new_events w (snd (get_dataloader en args config w)))"
    by auto
qed

theorem get_dataloader_feature_mode_witness:
  "(\<exists>kwargs. Call (GetDataloader kwargs)
       \<in> set (new_events example_world
                (snd (get_dataloader example_env example_args example_config example_world)))
       \<and> map_of kwargs ''load'' = Some (PStr ''acoustic''))
   \<and> (\<exists>kwargs. Call (GetDataloader kwargs)
       \<in> set (new_events example_world
                (snd (get_dataloader example_env example_args example_duo_config
                       example_world)))
       \<and> map_of kwargs ''load'' = Some (PStr ''duo''))"
proof -
  let ?a = "get_dataloader example_env example_args example_config example_world"
  let ?b = "get_dataloader example_env example_args example_duo_config example_world"
  have ra: "fst ?a = Inr (PObject 0)" and rb: "fst ?b = Inr (PObject 0)"
    by code_simp+
  have da: "getitem example_config ''runner'' = Inr (PDict [(''duo_feature'', PBool False)])"
    by (simp add: example_config_def)
  have db: "getitem example_duo_config ''runner'' = Inr (PDict [(''duo_feature'', PInt 1)])"
    by (simp add: example_duo_config_def)
  note thm_a = get_dataloader_feature_mode
    [of example_world example_env example_args example_config]
  note thm_b = get_dataloader_feature_mode
    [of example_world example_env example_args example_duo_config]
  from thm_a ra obtain ka where
    ka: "Call (GetDataloader ka) \<in> set (new_events example_world (snd ?a))"
    by blast
  with thm_a obtain runner duo where
    "getitem example_config ''runner'' = Inr runner"
    "getitem runner ''duo_feature'' = Inr duo"
    "map_of ka ''load'' = Some (PStr (if truthy duo then ''duo'' else ''acoustic''))"
    by blast
  with da have "map_of ka ''load'' = Some (PStr ''acoustic'')"
    by auto
  moreover
  from thm_b rb obtain kb where
    kb: "Call (GetDataloader kb) \<in> set (new_events example_world (snd ?b))"
    by blast
  with thm_b obtain runner' duo' where
    "getitem example_duo_config ''runner'' = Inr runner'"
    "getitem runner' ''duo_feature'' = Inr duo'"
    "map_of kb ''load'' = Some (PStr (if truthy duo' then ''duo'' else ''acoustic''))"
    by blast
  with db have "map_of kb ''load'' = Some (PStr ''duo'')"
    by auto
  ultimately show ?thesis using ka kb by blast
qed

section \<open>The choice of the dataloader\<close>

lemma only_emits_import_module [intro!]: "only_emits P (import_module en m)"
  by (simp add: import_module_def split: option.splits) auto

lemma only_emits_randint [intro!]: "only_emits P (randint en a b)"
  by (simp add: only_emits_def randint_def)

lemma only_emits_read_file [intro!]: "only_emits P (read_file p)"
  by (simp add: only_emits_def read_file_def split: option.splits node.splits)

lemma only_emits_makedirs: "P (MakeDirs p) \<Longrightarrow> only_emits P (makedirs p)"
  by (simp add: only_emits_def makedirs_def split: prod.splits option.splits)

lemma only_emits_copyfile: "P (CopyFile s d) \<Longrightarrow> only_emits P (copyfile s d)"
  by (simp add: only_emits_def copyfile_def split: option.splits node.splits)

lemma only_emits_case_prod:
  "(\<And>a b. x = (a, b) \<Longrightarrow> only_emits P (f a b)) \<Longrightarrow> only_emits P (case x of (a, b) \<Rightarrow> f a b)"
  by (cases x) simp

lemma only_emits_copy_into:
  "(\<And>s d. P (CopyFile s d)) \<Longrightarrow> only_emits P (copy_into path ckpdir)"
  unfolding copy_into_def
  by (cases path)
     (auto intro!: only_emits_bind_lift only_emits_copyfile)

lemma prepare_ckpdir_only_emits:
  "only_emits (\<lambda>e. (\<exists>p. e = MakeDirs p) \<or> (\<exists>s d. e = CopyFile s d)) (prepare_ckpdir en args)"
  unfolding prepare_ckpdir_def
  by (intro only_emits_bind_lift only_emits_bind only_emits_os_path_exists only_emits_if
        only_emits_raise only_emits_ret only_emits_import_module only_emits_randint
        only_emits_case_prod only_emits_copy_into only_emits_makedirs)
     auto

lemmas only_emits_rules =
  only_emits_bind_lift only_emits_bind only_emits_os_path_exists only_emits_if
  only_emits_raise only_emits_ret only_emits_lift only_emits_import_module only_emits_randint
  only_emits_read_file only_emits_case_prod only_emits_emit only_emits_extcall

lemma get_dataloader_events:
  "only_emits (\<lambda>e. (\<exists>l. e = Print l) \<or> (\<exists>kwargs. e = Call (GetDataloader kwargs)))
     (get_dataloader en args config)"
  by (rule only_emits_mono [OF get_dataloader_only_emits]) auto

lemma run_transformer_online_events:
  assumes "''online'' \<in> fst ` set kvs"
  shows "only_emits (\<lambda>e. \<forall>kwargs. e \<noteq> Call (GetDataloader kwargs))
           (run_transformer en args (PDict kvs))"
  unfolding run_transformer_def
  apply (intro only_emits_rules)
       apply (rule only_emits_mono [OF prepare_ckpdir_only_emits])
       apply auto[1]
  using assms apply auto
  done

lemma run_transformer_static_events:
  assumes "''online'' \<notin> fst ` set kvs"
  shows "only_emits (\<lambda>e. \<forall>a c b. e \<noteq> Call (GetOnlineDataloader a c b))
           (run_transformer en args (PDict kvs))"
  unfolding run_transformer_def
  apply (intro only_emits_rules)
       apply (rule only_emits_mono [OF prepare_ckpdir_only_emits])
       apply auto[1]
  using assms apply auto
  apply (rule only_emits_mono [OF get_dataloader_events])
  apply auto
  done


lemma get_dataloader_without_data_path:
  assumes "getitem config ''dataloader'' = Inr dl"
    and "getitem dl ''data_path'' = Inr (PStr p)"
    and "map_of (fs w) p = None"
  shows "get_dataloader en args config w
           = (Inl (RuntimeError ''[run_upstream] - Data path not valid:'' (PStr p)), w)"
  using assms by (simp add: get_dataloader_def bind_def os_path_exists_def)

lemma bind_extcall_trace:
  assumes "\<And>x. only_emits (\<lambda>e. True) (f x)"
  shows "\<exists>evs. trace (snd (bind (extcall en c) f w)) = trace w @ Call c # evs"
proof (cases "ext en c w")
  case (Pair r w2)
  show ?thesis
  proof (cases r)
    case (Inl m)
    with Pair show ?thesis by (simp add: bind_def extcall_def)
  next
    case (Inr v)
    have "\<exists>evs. trace (snd (f v u)) = trace u @ evs" for u
      using assms [of v] unfolding only_emits_def by blast
    then obtain evs where
      "trace (snd (f v (w2\<lparr>trace := trace w @ [Call c]\<rparr>)))
         = trace (w2\<lparr>trace := trace w @ [Call c]\<rparr>) @ evs"
      by blast
    with Pair Inr show ?thesis by (simp add: bind_def extcall_def)
  qed
qed

lemma run_transformer_after_prepare:
  assumes "prepare_ckpdir en args w = (Inr (args', ckpdir), w1)"
  shows "run_transformer en args config w =
     bind (lift (contains ''online'' config)) (\<lambda>online.
     bind (if online then extcall en (GetOnlineDataloader args' config True)
           else get_dataloader en args' config) (\<lambda>dataloader.
     bind (extcall en (RunnerNew args' config dataloader ckpdir)) (\<lambda>runner.
     bind (extcall en (RunnerSetModel runner)) (\<lambda>_.
     bind (extcall en (RunnerTrain runner)) (\<lambda>_.
     ret ()))))) w1"
  unfolding run_transformer_def
  by (subst bind_apply_Inr [of "prepare_ckpdir en args" w, OF assms]) (simp only: prod.case)

lemma train_only_emits:
  "only_emits (\<lambda>e. True)
     (bind (extcall en (RunnerNew a c d k)) (\<lambda>runner.
      bind (extcall en (RunnerSetModel runner)) (\<lambda>_.
      bind (extcall en (RunnerTrain runner)) (\<lambda>_. ret ()))))"
  by (intro only_emits_bind only_emits_extcall only_emits_ret TrueI)

lemma run_transformer_calls_online:
  assumes prep: "prepare_ckpdir en args w = (Inr (args', ckpdir), w1)"
    and on: "''online'' \<in> fst ` set kvs"
  shows "Call (GetOnlineDataloader args' (PDict kvs) True)
           \<in> set (new_events w (snd (run_transformer en args (PDict kvs) w)))"
proof -
  let ?train = "\<lambda>dataloader.
     bind (extcall en (RunnerNew args' (PDict kvs) dataloader ckpdir)) (\<lambda>runner.
     bind (extcall en (RunnerSetModel runner)) (\<lambda>_.
     bind (extcall en (RunnerTrain runner)) (\<lambda>_.
     ret ())))"
  let ?call = "GetOnlineDataloader args' (PDict kvs) True"
  from only_emits_new_events [OF prepare_ckpdir_only_emits, of en args w] prep
  have 1: "trace w1 = trace w @ new_events w w1" by simp
  from on have c: "contains ''online'' (PDict kvs) = Inr True" by simp
  have tr: "only_emits (\<lambda>e. True) (?train x)" for x
    by (rule train_only_emits)
  from bind_extcall_trace [of ?train en ?call w1, OF tr] obtain evs where
    e: "trace (snd (bind (extcall en ?call) ?train w1)) = trace w1 @ Call ?call # evs"
    by blast
  have eq: "run_transformer en args (PDict kvs) w = bind (extcall en ?call) ?train w1"
    by (simp only: run_transformer_after_prepare [OF prep] c bind_lift_Inr if_True)
  from e 1 have "trace (snd (run_transformer en args (PDict kvs) w))
       = trace w @ (new_events w w1 @ Call ?call # evs)"
    by (simp only: eq append_assoc)
  then show ?thesis by (simp add: new_events_def)
qed

lemma run_transformer_checks_path:
  assumes prep: "prepare_ckpdir en args w = (Inr (args', ckpdir), w1)"
    and off: "''online'' \<notin> fst ` set kvs"
    and "getitem (PDict kvs) ''dataloader'' = Inr dl"
    and "getitem dl ''data_path'' = Inr (PStr p)"
    and "map_of (fs w1) p = None"
  shows "run_transformer en args (PDict kvs) w
           = (Inl (RuntimeError ''[run_upstream] - Data path not valid:'' (PStr p)), w1)"
proof -
  from off have c: "contains ''online'' (PDict kvs) = Inr False" by simp
  show ?thesis
    unfolding run_transformer_after_prepare [OF prep] c
    by (simp add: bind_def get_dataloader_without_data_path [OF assms(3,4,5)])
qed

lemma returns_after_case_prod:
  "(\<And>a b. x = (a, b) \<Longrightarrow> returns_after G (f a b)) \<Longrightarrow> returns_after G (case x of (a, b) \<Rightarrow> f a b)"
  by (cases x) simp

lemma run_transformer_returns_after:
  assumes off: "''online'' \<notin> fst ` set kvs"
  shows "returns_after (\<lambda>e. \<exists>kwargs. e = Call (GetDataloader kwargs))
           (run_transformer en args (PDict kvs))"
  unfolding run_transformer_def
proof (rule returns_after_bind_right)
  show "only_emits (\<lambda>e. True) (prepare_ckpdir en args)"
    by (rule only_emits_mono [OF prepare_ckpdir_only_emits]) simp
next
  fix x :: "namespace \<times> pyval"
  show "returns_after (\<lambda>e. \<exists>kwargs. e = Call (GetDataloader kwargs))
          (case x of (args, ckpdir) \<Rightarrow>
             bind (lift (contains ''online'' (PDict kvs))) (\<lambda>online.
             bind (if online then extcall en (GetOnlineDataloader args (PDict kvs) True)
                   else get_dataloader en args (PDict kvs)) (\<lambda>dataloader.
             bind (extcall en (RunnerNew args (PDict kvs) dataloader ckpdir)) (\<lambda>runner.
             bind (extcall en (RunnerSetModel runner)) (\<lambda>_.
             bind (extcall en (RunnerTrain runner)) (\<lambda>_.
             ret ()))))))"
  proof (rule returns_after_case_prod)
    fix a b
    show "returns_after (\<lambda>e. \<exists>kwargs. e = Call (GetDataloader kwargs))
           (bind (lift (contains ''online'' (PDict kvs))) (\<lambda>online.
             bind (if online then extcall en (GetOnlineDataloader a (PDict kvs) True)
                   else get_dataloader en a (PDict kvs)) (\<lambda>dataloader.
             bind (extcall en (RunnerNew a (PDict kvs) dataloader b)) (\<lambda>runner.
             bind (extcall en (RunnerSetModel runner)) (\<lambda>_.
             bind (extcall en (RunnerTrain runner)) (\<lambda>_.
             ret ()))))))"
    proof (rule returns_after_bind_lift)
      fix online
      assume "contains ''online'' (PDict kvs) = Inr online"
      with off have "\<not> online" by auto
      then show "returns_after (\<lambda>e. \<exists>kwargs. e = Call (GetDataloader kwargs))
             (bind (if online then extcall en (GetOnlineDataloader a (PDict kvs) True)
                   else get_dataloader en a (PDict kvs)) (\<lambda>dataloader.
             bind (extcall en (RunnerNew a (PDict kvs) dataloader b)) (\<lambda>runner.
             bind (extcall en (RunnerSetModel runner)) (\<lambda>_.
             bind (extcall en (RunnerTrain runner)) (\<lambda>_.
             ret ())))))"
        by (simp add: returns_after_bind_left [OF get_dataloader_returns_after train_only_emits])
    qed
  qed
qed




section \<open>Testing the APC model\<close>

subsection \<open>How an action ends\<close>

lemma raises_only_ret: "raises_only E (ret x)"
  by (simp add: raises_only_def)

lemma raises_only_emit: "raises_only E (emit ev)"
  by (simp add: raises_only_def emit_def)

lemma raises_only_extcall: "(\<And>m. E (ExternalError m)) \<Longrightarrow> raises_only E (extcall en c)"
  by (simp add: raises_only_def extcall_def split: prod.splits sum.splits)

lemma raises_only_bind:
  assumes "raises_only E m" and "\<And>x. raises_only E (f x)"
  shows "raises_only E (bind m f)"
  unfolding raises_only_def
proof
  fix w
  obtain r w' where mw: "m w = (r, w')" by (cases "m w")
  show "case fst (bind m f w) of Inl e \<Rightarrow> E e | Inr x \<Rightarrow> True"
  proof (cases r)
    case (Inl e)
    with mw assms(1) show ?thesis
      by (auto simp: bind_def raises_only_def dest!: spec [of _ w])
  next
    case (Inr x)
    with mw have "bind m f w = f x w'" by (simp add: bind_def)
    with assms(2) [of x] show ?thesis by (simp add: raises_only_def)
  qed
qed

lemma raises_only_if:
  "(b \<Longrightarrow> raises_only E m) \<Longrightarrow> (\<not> b \<Longrightarrow> raises_only E n) \<Longrightarrow> raises_only E (if b then m else n)"
  by simp

lemma fails_with_raise: "E e \<Longrightarrow> fails_with E (raise e)"
  by (simp add: fails_with_def)

lemma fails_with_bind:
  assumes "raises_only E m" and "\<And>x. fails_with E (f x)"
  shows "fails_with E (bind m f)"
  unfolding fails_with_def
proof
  fix w
  obtain r w' where mw: "m w = (r, w')" by (cases "m w")
  show "case fst (bind m f w) of Inl e \<Rightarrow> E e | Inr x \<Rightarrow> False"
  proof (cases r)
    case (Inl e)
    with mw assms(1) show ?thesis
      by (auto simp: bind_def raises_only_def dest!: spec [of _ w])
  next
    case (Inr x)
    with mw have "bind m f w = f x w'" by (simp add: bind_def)
    with assms(2) [of x] show ?thesis by (simp add: fails_with_def)
  qed
qed

lemma fails_withD:
  assumes "fails_with E m"
  shows "\<exists>e. fst (m w) = Inl e \<and> E e"
proof -
  from assms have "case fst (m w) of Inl e \<Rightarrow> E e | Inr x \<Rightarrow> False"
    by (simp add: fails_with_def)
  then show ?thesis by (cases "fst (m w)") auto
qed

lemma main_after_args:
  assumes "get_upstream_args en c w = (Inr (args, config), w1)"
  shows "main en c w =
     bind (lift (getattr args ''seed'')) (\<lambda>seed.
     bind (extcall en (RandomSeed seed)) (\<lambda>_.
     bind (extcall en (NpRandomSeed seed)) (\<lambda>_.
     bind (extcall en (TorchManualSeed seed)) (\<lambda>_.
     bind (extcall en CudaIsAvailable) (\<lambda>available.
     bind (if truthy available then bind (extcall en (CudaManualSeedAll seed)) (\<lambda>_. ret ())
           else ret ()) (\<lambda>_.
     bind (emit (SetFlag ''torch.backends.cudnn.deterministic'' True)) (\<lambda>_.
     bind (emit (SetFlag ''torch.backends.cudnn.benchmark'' True)) (\<lambda>_.
     bind (lift (getattr args ''run'')) (\<lambda>run.
     if run = PStr ''transformer'' then
       bind (lift (getattr args ''test'')) (\<lambda>test.
       if test \<noteq> PStr [] then
         bind (lift (getitem config ''transformer'')) (\<lambda>transformer.
         bind (lift (getitem transformer ''input_dim'')) (\<lambda>input_dim.
         bind (test_transformer en args input_dim) (\<lambda>_. ret ())))
       else run_transformer en args config)
     else if run = PStr ''apc'' then
       bind (lift (getattr args ''test'')) (\<lambda>test.
       if test \<noteq> PStr [] then raise NotImplementedError
       else bind (lift (getattr args ''seed'')) (\<lambda>seed. run_apc en seed))
     else ret ()))))))))) w1"
  unfolding main_def
  by (subst bind_apply_Inr [of "get_upstream_args en c" w, OF assms]) (simp only: prod.case)

lemma only_emits_read [intro!]: "only_emits P (\<lambda>w. (g w, w))"
  by (simp add: only_emits_def)

lemma get_upstream_args_events:
  "only_emits (\<lambda>e. (\<exists>t. e = Call (YamlLoad t)) \<or> (\<exists>v. e = Call (ParsePruneHeads v))
                    \<or> (\<exists>p. e = Call (TorchLoad p)))
     (get_upstream_args en c)"
proof (cases "cli_resume c")
  case None
  show ?thesis
    unfolding get_upstream_args_def Let_def None yaml_load_file_def option.case
    by (cases "cli_config c"; cases "cli_online_config c")
       (auto intro!: only_emits_bind only_emits_extcall only_emits_raise only_emits_ret
          only_emits_read_file only_emits_lift)
next
  case (Some resume)
  show ?thesis
    unfolding get_upstream_args_def Let_def Some option.case
    by (intro only_emits_bind only_emits_extcall only_emits_raise only_emits_ret
          only_emits_read only_emits_lift) auto
qed

lemma raises_only_extcall_returns:
  "(\<And>w. \<exists>v. fst (ext en c w) = Inr v) \<Longrightarrow> raises_only E (extcall en c)"
  unfolding raises_only_def extcall_def
  by (auto split: prod.splits sum.splits) (metis fst_conv sum.distinct(1))

text \<open>
  The command line alone does not decide the branch that \<^verbatim>\<open>main\<close> takes. Asked for
  \<^verbatim>\<open>--run apc --test result/run/states-9.ckpt\<close> without \<^verbatim>\<open>--config\<close>, the
  run ends in \<^verbatim>\<open>get_upstream_args\<close> with the TypeError of \<^verbatim>\<open>open(None, 'r')\<close>
  and never reaches line 195. With \<^verbatim>\<open>--resume result/run\<close> the arguments of the
  checkpoint replace those of the command line: the example checkpoint was written by a
  training run of the transformer, so the run trains a transformer, builds its Runner and
  returns.
\<close>

theorem main_apc_test_other_outcomes:
  "fst (main example_env
          (example_cli\<lparr>cli_run := Some Apc, cli_config := None,
                         cli_test := ''result/run/states-9.ckpt''\<rparr>)
          example_world) = Inl TypeError
   \<and> fst (main example_env
            (example_cli\<lparr>cli_resume := Some ''result/run'', cli_run := Some Apc,
                           cli_test := ''result/run/states-9.ckpt''\<rparr>)
            example_world) = Inr ()
   \<and> Call (RunnerTrain (PObject 0))
       \<in> set (trace (snd (main example_env
                  (example_cli\<lparr>cli_resume := Some ''result/run'', cli_run := Some Apc,
                                 cli_test := ''result/run/states-9.ckpt''\<rparr>)
                  example_world)))"
  by code_simp

text \<open>
  Claim C6. Let \<^verbatim>\<open>get_upstream_args\<close> return arguments whose \<^verbatim>\<open>run\<close> is
  \<^verbatim>\<open>'apc'\<close> and whose \<^verbatim>\<open>test\<close> is not the empty string. Then \<^verbatim>\<open>main\<close>
  fails: with NotImplementedError, or with the exception of an outside call; and it is
  NotImplementedError whenever the seeding calls of lines 179 to 182 return. All that the
  run has recorded by then are the calls of \<^verbatim>\<open>get_upstream_args\<close>, the seeding calls
  and the two backend flags: no dataloader, no Runner and no model was built.
\<close>

theorem main_apc_test_fails:
  assumes args: "get_upstream_args en c w = (Inr (args, config), w1)"
    and run: "getattr args ''run'' = Inr (PStr ''apc'')"
    and test: "getattr args ''test'' = Inr test"
    and given: "test \<noteq> PStr []"
    and seed: "getattr args ''seed'' = Inr seed"
  shows "(fst (main en c w) = Inl NotImplementedError
          \<or> (\<exists>m. fst (main en c w) = Inl (ExternalError m)))
       \<and> ((\<forall>k \<in> set (seeding_calls seed). \<forall>w'. \<exists>v. fst (ext en k w') = Inr v)
            \<longrightarrow> fst (main en c w) = Inl NotImplementedError)
       \<and> list_all setup_event (new_events w (snd (main en c w)))"
proof -
  let ?rest =
    "bind (extcall en (RandomSeed seed)) (\<lambda>_.
     bind (extcall en (NpRandomSeed seed)) (\<lambda>_.
     bind (extcall en (TorchManualSeed seed)) (\<lambda>_.
     bind (extcall en CudaIsAvailable) (\<lambda>available.
     bind (if truthy available then bind (extcall en (CudaManualSeedAll seed)) (\<lambda>_. ret ())
           else ret ()) (\<lambda>_.
     bind (emit (SetFlag ''torch.backends.cudnn.deterministic'' True)) (\<lambda>_.
     bind (emit (SetFlag ''torch.backends.cudnn.benchmark'' True)) (\<lambda>_.
     (raise NotImplementedError :: unit io))))))))"
  have eq: "main en c w = ?rest w1"
    unfolding main_after_args [OF args]
    using given by (simp add: seed run test raise_def)
  have "fails_with (\<lambda>e. e = NotImplementedError \<or> (\<exists>m. e = ExternalError m)) ?rest"
    by (intro fails_with_bind fails_with_raise raises_only_bind raises_only_extcall
          raises_only_emit raises_only_if raises_only_ret) auto
  from fails_withD [OF this, of w1] have res:
    "fst (main en c w) = Inl NotImplementedError \<or> (\<exists>m. fst (main en c w) = Inl (ExternalError m))"
    unfolding eq by auto
  have ok: "fst (main en c w) = Inl NotImplementedError"
    if "\<forall>k \<in> set (seeding_calls seed). \<forall>w'. \<exists>v. fst (ext en k w') = Inr v"
  proof -
    from that have k: "\<And>w'. \<exists>v. fst (ext en (RandomSeed seed) w') = Inr v"
      "\<And>w'. \<exists>v. fst (ext en (NpRandomSeed seed) w') = Inr v"
      "\<And>w'. \<exists>v. fst (ext en (TorchManualSeed seed) w') = Inr v"
      "\<And>w'. \<exists>v. fst (ext en CudaIsAvailable w') = Inr v"
      "\<And>w'. \<exists>v. fst (ext en (CudaManualSeedAll seed) w') = Inr v"
      by (simp_all add: seeding_calls_def)
    have "fails_with (\<lambda>e. e = NotImplementedError) ?rest"
      by (intro fails_with_bind fails_with_raise raises_only_bind
            raises_only_extcall_returns k raises_only_emit raises_only_if raises_only_ret refl)
    from fails_withD [OF this, of w1] show ?thesis
      unfolding eq by auto
  qed
  have "only_emits setup_event ?rest"
    by (intro only_emits_bind only_emits_extcall only_emits_emit only_emits_if only_emits_ret
          only_emits_raise) auto
  then obtain evs2 where 2: "trace (snd (?rest w1)) = trace w1 @ evs2"
    and p2: "list_all setup_event evs2"
    unfolding only_emits_def by blast
  have "only_emits setup_event (get_upstream_args en c)"
    by (rule only_emits_mono [OF get_upstream_args_events]) auto
  with args obtain evs1 where 1: "trace w1 = trace w @ evs1"
    and p1: "list_all setup_event evs1"
    unfolding only_emits_def by (metis snd_conv)
  from 1 2 have "trace (snd (main en c w)) = trace w @ (evs1 @ evs2)"
    unfolding eq by (simp only: append_assoc)
  then have "new_events w (snd (main en c w)) = evs1 @ evs2"
    unfolding new_events_def by simp
  with p1 p2 res ok show ?thesis by simp
qed

theorem main_apc_test_fails_witness:
  "fst (main example_env
          (example_cli\<lparr>cli_run := Some Apc, cli_test := ''result/run/states-9.ckpt''\<rparr>)
          example_world) = Inl NotImplementedError
   \<and> list_all setup_event
         (new_events example_world
            (snd (main example_env
                    (example_cli\<lparr>cli_run := Some Apc, cli_test := ''result/run/states-9.ckpt''\<rparr>)
                    example_world)))"
proof -
  let ?c = "example_cli\<lparr>cli_run := Some Apc, cli_test := ''result/run/states-9.ckpt''\<rparr>"
  have "case get_upstream_args example_env ?c example_world of
          (Inl e, w') \<Rightarrow> False
        | (Inr (args, config), w') \<Rightarrow>
            getattr args ''run'' = Inr (PStr ''apc'')
          \<and> getattr args ''test'' = Inr (PStr ''result/run/states-9.ckpt'')
          \<and> getattr args ''seed'' = Inr (PInt 1337)"
    by code_simp
  then obtain args config w1 where
    r: "get_upstream_args example_env ?c example_world = (Inr (args, config), w1)"
    and run: "getattr args ''run'' = Inr (PStr ''apc'')"
    and test: "getattr args ''test'' = Inr (PStr ''result/run/states-9.ckpt'')"
    and seed: "getattr args ''seed'' = Inr (PInt 1337)"
    by (auto split: prod.splits sum.splits)
  have given: "PStr ''result/run/states-9.ckpt'' \<noteq> PStr []"
    by simp
  have seeds: "\<forall>k \<in> set (seeding_calls (PInt 1337)). \<forall>w'.
                 \<exists>v. fst (ext example_env k w') = Inr v"
    by (simp add: seeding_calls_def example_env_def)
  from main_apc_test_fails [OF r run test given seed] seeds show ?thesis
    by blast
qed

section \<open>Testing the transformer\<close>

subsection \<open>Actions that leave the files alone\<close>

lemma leaves_files_ret: "leaves_files (ret x)"
  by (simp add: leaves_files_def)

lemma leaves_files_raise: "leaves_files (raise e)"
  by (simp add: leaves_files_def)

lemma leaves_files_lift: "leaves_files (lift r)"
  by (simp add: leaves_files_def)

lemma leaves_files_read: "leaves_files (\<lambda>w. (g w, w))"
  by (simp add: leaves_files_def)

lemma leaves_files_emit: "leaves_files (emit ev)"
  by (simp add: leaves_files_def emit_def)

lemma leaves_files_extcall: "harmless en \<Longrightarrow> leaves_files (extcall en c)"
  by (simp add: leaves_files_def harmless_def extcall_def split: prod.splits)
     (metis snd_conv)

lemma leaves_files_import_module: "leaves_files (import_module en m)"
  by (simp add: leaves_files_def import_module_def split: option.splits)

lemma leaves_files_read_file: "leaves_files (read_file p)"
  by (simp add: leaves_files_def read_file_def split: option.splits node.splits)

lemma leaves_files_bind:
  assumes "leaves_files m" and "\<And>x. leaves_files (f x)"
  shows "leaves_files (bind m f)"
  unfolding leaves_files_def
proof
  fix w
  obtain r w' where mw: "m w = (r, w')" by (cases "m w")
  with assms(1) have 1: "fs w' = fs w"
    unfolding leaves_files_def by (metis snd_conv)
  show "fs (snd (bind m f w)) = fs w"
  proof (cases r)
    case (Inl e)
    with mw 1 show ?thesis by (simp add: bind_def)
  next
    case (Inr x)
    with mw have "bind m f w = f x w'" by (simp add: bind_def)
    with assms(2) [of x] 1 show ?thesis by (simp add: leaves_files_def)
  qed
qed

lemma leaves_files_if:
  "(b \<Longrightarrow> leaves_files m) \<Longrightarrow> (\<not> b \<Longrightarrow> leaves_files n) \<Longrightarrow> leaves_files (if b then m else n)"
  by simp

lemma get_upstream_args_leaves_files:
  assumes "harmless en"
  shows "leaves_files (get_upstream_args en c)"
proof (cases "cli_resume c")
  case None
  show ?thesis
    unfolding get_upstream_args_def Let_def None yaml_load_file_def option.case
    by (cases "cli_config c"; cases "cli_online_config c")
       (auto intro!: leaves_files_bind leaves_files_extcall leaves_files_raise leaves_files_ret
          leaves_files_read_file leaves_files_lift assms)
next
  case (Some resume)
  show ?thesis
    unfolding get_upstream_args_def Let_def Some option.case
    by (intro leaves_files_bind leaves_files_extcall leaves_files_raise leaves_files_ret
          leaves_files_read leaves_files_lift assms)
qed

lemma main_test_branch:
  assumes args: "get_upstream_args en c w = (Inr (args, config), w1)"
    and run: "getattr args ''run'' = Inr (PStr ''transformer'')"
    and test: "getattr args ''test'' = Inr test"
    and given: "test \<noteq> PStr []"
  shows "main en c w =
     bind (lift (getattr args ''seed'')) (\<lambda>seed.
     bind (extcall en (RandomSeed seed)) (\<lambda>_.
     bind (extcall en (NpRandomSeed seed)) (\<lambda>_.
     bind (extcall en (TorchManualSeed seed)) (\<lambda>_.
     bind (extcall en CudaIsAvailable) (\<lambda>available.
     bind (if truthy available then bind (extcall en (CudaManualSeedAll seed)) (\<lambda>_. ret ())
           else ret ()) (\<lambda>_.
     bind (emit (SetFlag ''torch.backends.cudnn.deterministic'' True)) (\<lambda>_.
     bind (emit (SetFlag ''torch.backends.cudnn.benchmark'' True)) (\<lambda>_.
     bind (lift (getitem config ''transformer'')) (\<lambda>transformer.
     bind (lift (getitem transformer ''input_dim'')) (\<lambda>input_dim.
     bind (test_transformer en args input_dim) (\<lambda>_. ret ()))))))))))) w1"
  unfolding main_after_args [OF args]
  using given by (simp add: run test)

text \<open>
  Here too the checkpoint of a resume path decides: asked for
  \<^verbatim>\<open>--resume result/run --run transformer --test result/run/states-9.ckpt\<close>, the
  run takes its \<^verbatim>\<open>test\<close> from the example checkpoint, where it is empty, and trains:
  it makes a checkpoint directory, copies the configuration into it and builds the training
  dataloader.
\<close>

theorem main_transformer_test_resume_trains:
  "case main example_env
          (example_cli\<lparr>cli_resume := Some ''result/run'', cli_run := Some Transformer,
                         cli_test := ''result/run/states-9.ckpt''\<rparr>)
          example_world of
     (r, w') \<Rightarrow>
       r = Inr ()
     \<and> MakeDirs ''result/result_transformer/run_234'' \<in> set (trace w')
     \<and> map_of (fs w') ''result/result_transformer/run_234/base.yaml''
           = Some (File ''transformer: {}'')
     \<and> map_of (fs example_world) ''result/result_transformer/run_234/base.yaml'' = None
     \<and> list_ex (\<lambda>e. case e of Call (GetDataloader kwargs) \<Rightarrow> True | _ \<Rightarrow> False)
           (trace w')"
  by code_simp

text \<open>
  Claim C9. Let \<^verbatim>\<open>get_upstream_args\<close> return arguments whose \<^verbatim>\<open>run\<close> is
  \<^verbatim>\<open>'transformer'\<close> and whose \<^verbatim>\<open>test\<close> is not the empty string. Then all that
  \<^verbatim>\<open>main\<close> records are the calls of \<^verbatim>\<open>get_upstream_args\<close>, the seeding calls,
  the backend flags, the construction of the model and printed lines: no dataloader and no
  Runner is built, no directory is made and no file is copied. If the outside modules leave
  the file system alone, it is after the run what it was before. A run that returns has
  built the model from the checkpoint file that \<^verbatim>\<open>test\<close> names.
\<close>

theorem main_transformer_test_reads_only:
  assumes args: "get_upstream_args en c w = (Inr (args, config), w1)"
    and run: "getattr args ''run'' = Inr (PStr ''transformer'')"
    and test: "getattr args ''test'' = Inr test"
    and given: "test \<noteq> PStr []"
  shows "list_all test_event (new_events w (snd (main en c w)))
       \<and> (harmless en \<longrightarrow> fs (snd (main en c w)) = fs w)
       \<and> (fst (main en c w) = Inr () \<longrightarrow>
            (\<exists>options input_dim.
               Call (TransformerNew options input_dim) \<in> set (new_events w (snd (main en c w)))
             \<and> map_of options ''ckpt_file'' = Some test))"
proof -
  let ?G = "\<lambda>e. \<exists>options input_dim.
              e = Call (TransformerNew options input_dim) \<and> map_of options ''ckpt_file'' = Some test"
  let ?rest =
    "bind (lift (getattr args ''seed'')) (\<lambda>seed.
     bind (extcall en (RandomSeed seed)) (\<lambda>_.
     bind (extcall en (NpRandomSeed seed)) (\<lambda>_.
     bind (extcall en (TorchManualSeed seed)) (\<lambda>_.
     bind (extcall en CudaIsAvailable) (\<lambda>available.
     bind (if truthy available then bind (extcall en (CudaManualSeedAll seed)) (\<lambda>_. ret ())
           else ret ()) (\<lambda>_.
     bind (emit (SetFlag ''torch.backends.cudnn.deterministic'' True)) (\<lambda>_.
     bind (emit (SetFlag ''torch.backends.cudnn.benchmark'' True)) (\<lambda>_.
     bind (lift (getitem config ''transformer'')) (\<lambda>transformer.
     bind (lift (getitem transformer ''input_dim'')) (\<lambda>input_dim.
     bind (test_transformer en args input_dim) (\<lambda>_. ret ())))))))))))"
  have eq: "main en c w = ?rest w1"
    by (rule main_test_branch [OF args run test given])
  have tt: "only_emits test_event (test_transformer en args input_dim)" for input_dim
    unfolding test_transformer_def Let_def
    by (intro only_emits_bind only_emits_import_module only_emits_lift only_emits_extcall
          only_emits_emit only_emits_ret) simp_all
  have e2: "only_emits test_event ?rest"
    by (intro only_emits_bind only_emits_extcall only_emits_emit only_emits_if only_emits_ret
          only_emits_lift tt) simp_all
  then obtain evs2 where 2: "trace (snd (?rest w1)) = trace w1 @ evs2"
    and p2: "list_all test_event evs2"
    unfolding only_emits_def by blast
  have "only_emits test_event (get_upstream_args en c)"
    by (rule only_emits_mono [OF get_upstream_args_events]) auto
  with args obtain evs1 where 1: "trace w1 = trace w @ evs1"
    and p1: "list_all test_event evs1"
    unfolding only_emits_def by (metis snd_conv)
  from 1 2 have "trace (snd (main en c w)) = trace w @ (evs1 @ evs2)"
    unfolding eq by (simp only: append_assoc)
  then have ev: "new_events w (snd (main en c w)) = evs1 @ evs2"
    unfolding new_events_def by simp
  have files: "fs (snd (main en c w)) = fs w" if h: "harmless en"
  proof -
    have tl: "leaves_files (test_transformer en args input_dim)" for input_dim
      unfolding test_transformer_def Let_def
      by (intro leaves_files_bind leaves_files_import_module leaves_files_lift
            leaves_files_extcall leaves_files_emit leaves_files_ret h)
    have "leaves_files ?rest"
      by (intro leaves_files_bind leaves_files_extcall leaves_files_emit leaves_files_if
            leaves_files_ret leaves_files_lift tl h)
    then have "fs (snd (?rest w1)) = fs w1"
      by (simp add: leaves_files_def)
    moreover from get_upstream_args_leaves_files [OF h, of c] args have "fs w1 = fs w"
      unfolding leaves_files_def by (metis snd_conv)
    ultimately show ?thesis unfolding eq by simp
  qed
  have called: "\<exists>options input_dim.
               Call (TransformerNew options input_dim) \<in> set (new_events w (snd (main en c w)))
             \<and> map_of options ''ckpt_file'' = Some test"
    if ok: "fst (main en c w) = Inr ()"
  proof -
    have all: "only_emits (\<lambda>e. True) m" if "only_emits test_event m" for m :: "'b io"
      using that by (rule only_emits_mono) simp
    have rt: "returns_after ?G (test_transformer en args input_dim)" for input_dim
      unfolding test_transformer_def Let_def
      apply (rule returns_after_bind_right)
       apply (rule only_emits_import_module)
      apply (rule returns_after_bind_lift)
      apply (rule returns_after_bind_left)
       apply (rule returns_after_extcall)
       apply (simp add: test)
      apply (intro only_emits_bind only_emits_emit only_emits_ret TrueI)
      done
    have "returns_after ?G ?rest"
      by (intro returns_after_bind_lift returns_after_bind_right returns_after_bind_left rt
            only_emits_extcall only_emits_emit only_emits_if only_emits_bind only_emits_ret TrueI)
    from returns_afterD [OF this, of w1] ok obtain e where
      "e \<in> set (new_events w1 (snd (?rest w1)))" and "?G e"
      unfolding eq by blast
    with 2 have "e \<in> set evs2" by (simp add: new_events_def)
    with ev \<open>?G e\<close> show ?thesis by auto
  qed
  from p1 p2 ev files called show ?thesis by simp
qed

theorem main_transformer_test_reads_only_witness:
  "list_all test_event
     (new_events example_world
        (snd (main example_env (example_cli\<lparr>cli_test := ''result/run/states-9.ckpt''\<rparr>)
                example_world)))
   \<and> fs (snd (main example_env (example_cli\<lparr>cli_test := ''result/run/states-9.ckpt''\<rparr>)
               example_world)) = fs example_world
   \<and> (\<exists>options input_dim.
         Call (TransformerNew options input_dim)
           \<in> set (new_events example_world
                    (snd (main example_env
                            (example_cli\<lparr>cli_test := ''result/run/states-9.ckpt''\<rparr>)
                            example_world)))
       \<and> map_of options ''ckpt_file'' = Some (PStr ''result/run/states-9.ckpt''))"
proof -
  let ?c = "example_cli\<lparr>cli_test := ''result/run/states-9.ckpt''\<rparr>"
  have "case get_upstream_args example_env ?c example_world of
          (Inl e, w') \<Rightarrow> False
        | (Inr (args, config), w') \<Rightarrow>
            getattr args ''run'' = Inr (PStr ''transformer'')
          \<and> getattr args ''test'' = Inr (PStr ''result/run/states-9.ckpt'')"
    by code_simp
  then obtain args config w1 where
    r: "get_upstream_args example_env ?c example_world = (Inr (args, config), w1)"
    and run: "getattr args ''run'' = Inr (PStr ''transformer'')"
    and test: "getattr args ''test'' = Inr (PStr ''result/run/states-9.ckpt'')"
    by (auto split: prod.splits sum.splits)
  have given: "PStr ''result/run/states-9.ckpt'' \<noteq> PStr []"
    by simp
  have h: "harmless example_env"
    by (simp add: harmless_def example_env_def split: call.splits pyval.splits)
  have ok: "fst (main example_env ?c example_world) = Inr ()"
    by code_simp
  from main_transformer_test_reads_only [OF r run test given] h ok show ?thesis
    by blast
qed

end
